theory Spec2Isabelle
  imports Main "HOL-Library.Sublist"
begin

section \<open>Python strings\<close>

text \<open>
  A Python \<open>str\<close> is a sequence of Unicode code points. The scripts handle code points
  above 255 (the corrected Romanian letters, U+0218 .. U+021B), so a string is a list of
  code points, not a list of 8-bit characters. ASCII literals of the source are written
  through \<open>ascii\<close>.
\<close>

type_synonym pystr = "nat list"

definition ascii :: "string \<Rightarrow> pystr" where
  "ascii s = map of_char s"

text \<open>\<open>sub in s\<close> for strings.\<close>

fun contains :: "pystr \<Rightarrow> pystr \<Rightarrow> bool" where
  "contains sub [] = (sub = [])"
| "contains sub (c # cs) = (prefix sub (c # cs) \<or> contains sub cs)"

text \<open>
  \<open>s.replace(old, new)\<close>: every non-overlapping occurrence of \<open>old\<close>, found from the
  left, is replaced. (With an empty \<open>old\<close> Python puts \<open>new\<close> around every character.)
\<close>

function py_replace :: "pystr \<Rightarrow> pystr \<Rightarrow> pystr \<Rightarrow> pystr" where
  "py_replace old new [] = (if old = [] then new else [])"
| "py_replace old new (c # cs) =
     (if old = [] then new @ c # py_replace old new cs
      else if prefix old (c # cs) then new @ py_replace old new (drop (length old) (c # cs))
      else c # py_replace old new cs)"
  by pat_completeness auto
termination
  by (relation "measure (\<lambda>(old, new, s). length s)") auto

text \<open>\<open>s.split(sep)\<close> for a one-character separator.\<close>

fun py_split :: "nat \<Rightarrow> pystr \<Rightarrow> pystr list" where
  "py_split sep [] = [[]]"
| "py_split sep (c # cs) =
     (if c = sep then [] # py_split sep cs
      else (case py_split sep cs of [] \<Rightarrow> [[c]] | w # ws \<Rightarrow> (c # w) # ws))"

text \<open>
  The characters \<open>str.strip()\<close> removes: those for which \<open>str.isspace\<close> holds.
\<close>

definition isspace :: "nat \<Rightarrow> bool" where
  "isspace c \<longleftrightarrow>
     (9 \<le> c \<and> c \<le> 13) \<or> (28 \<le> c \<and> c \<le> 32) \<or> c = 133 \<or> c = 160 \<or> c = 5760 \<or>
     (8192 \<le> c \<and> c \<le> 8202) \<or> c = 8232 \<or> c = 8233 \<or> c = 8239 \<or> c = 8287 \<or> c = 12288"

definition strip_with :: "(nat \<Rightarrow> bool) \<Rightarrow> pystr \<Rightarrow> pystr" where
  "strip_with P s = rev (dropWhile P (rev (dropWhile P s)))"

definition strip :: "pystr \<Rightarrow> pystr" where
  "strip s = strip_with isspace s"

text \<open>\<open>s.strip(chars)\<close>.\<close>

definition strip_chars :: "pystr \<Rightarrow> pystr \<Rightarrow> pystr" where
  "strip_chars chars s = strip_with (\<lambda>c. c \<in> set chars) s"

text \<open>
  \<open>re.search(lit + '(' + cls + '+)', s)\<close> followed by \<open>.group(1)\<close>, for a literal \<open>lit\<close>
  and a character class \<open>cls\<close>: the leftmost position where the literal is followed by at
  least one character of the class, and the longest run of class characters there.
  \<open>None\<close> is the \<open>None\<close> that \<open>re.search\<close> returns.
\<close>

fun re_search_group :: "pystr \<Rightarrow> (nat \<Rightarrow> bool) \<Rightarrow> pystr \<Rightarrow> pystr option" where
  "re_search_group lit cls [] = None"
| "re_search_group lit cls (c # cs) =
     (if prefix lit (c # cs) \<and> takeWhile cls (drop (length lit) (c # cs)) \<noteq> []
      then Some (takeWhile cls (drop (length lit) (c # cs)))
      else re_search_group lit cls cs)"

section \<open>Character Normalizer\<close>

text \<open>
  \<open>fix_romanian_chars\<close> of \<open>extract-senators.py\<close> and of \<open>SenatorsScraper\<close> (the same
  body). The argument is any Python value; a value that is not a \<open>str\<close> is returned as
  it is. The dictionary is walked in insertion order:
  U+00BA to U+0219, U+00FE to U+021B, U+00DE to U+021A, U+00AA to U+0218.
\<close>

datatype pyval = Str pystr | PyNone | PyInt int

definition replacements :: "(pystr \<times> pystr) list" where
  "replacements = [([186], [537]), ([254], [539]), ([222], [538]), ([170], [536])]"

fun replace_all :: "(pystr \<times> pystr) list \<Rightarrow> pystr \<Rightarrow> pystr" where
  "replace_all [] text = text"
| "replace_all ((old, new) # rs) text = replace_all rs (py_replace old new text)"

definition fix_chars :: "pystr \<Rightarrow> pystr" where
  "fix_chars text = replace_all replacements text"

fun fix_romanian_chars :: "pyval \<Rightarrow> pyval" where
  "fix_romanian_chars (Str text) = Str (fix_chars text)"
| "fix_romanian_chars v = v"

text \<open>The four replacements are single characters, so the whole is a map over the string.\<close>

definition fix_char :: "nat \<Rightarrow> nat" where
  "fix_char c =
     (if c = 186 then 537 else if c = 254 then 539 else if c = 222 then 538
      else if c = 170 then 536 else c)"

section \<open>Parsed documents\<close>

text \<open>
  The scripts hand every document to BeautifulSoup and work on the tree it returns. The
  tree is the input of the model: an element (\<open>Tag\<close>: name, attribute dictionary,
  children) or a text node (\<open>NavigableString\<close>). The root of a document is the
  \<open>BeautifulSoup\<close> object, itself an element.
\<close>

datatype node = Tag pystr "(pystr \<times> pystr) list" "node list" | NavigableString pystr

text \<open>\<open>element.name\<close>: \<open>None\<close> for a text node.\<close>

fun node_name :: "node \<Rightarrow> pystr option" where
  "node_name (Tag n a kids) = Some n"
| "node_name (NavigableString s) = None"

fun contents :: "node \<Rightarrow> node list" where
  "contents (Tag n a kids) = kids"
| "contents (NavigableString s) = []"

text \<open>\<open>tag.get(key)\<close>; \<open>tag[key]\<close> raises \<open>KeyError\<close> where this is \<open>None\<close>.\<close>

fun get_attr :: "node \<Rightarrow> pystr \<Rightarrow> pystr option" where
  "get_attr (Tag n a kids) key = map_of a key"
| "get_attr (NavigableString s) key = None"

text \<open>Everything below a node, in document order.\<close>

fun descendants :: "node \<Rightarrow> node list" where
  "descendants (Tag n a kids) = concat (map (\<lambda>k. k # descendants k) kids)"
| "descendants (NavigableString s) = []"

definition find_all :: "pystr \<Rightarrow> node \<Rightarrow> node list" where
  "find_all nm root = filter (\<lambda>k. node_name k = Some nm) (descendants root)"

definition find_first :: "pystr \<Rightarrow> node \<Rightarrow> node option" where
  "find_first nm root = (case find_all nm root of [] \<Rightarrow> None | k # _ \<Rightarrow> Some k)"

text \<open>
  The values of a \<open>class\<close> attribute: its maximal runs of non-whitespace characters.
\<close>

function py_words :: "pystr \<Rightarrow> pystr list" where
  "py_words [] = []"
| "py_words (c # cs) =
     (if isspace c then py_words cs
      else takeWhile (\<lambda>x. \<not> isspace x) (c # cs) # py_words (dropWhile (\<lambda>x. \<not> isspace x) cs))"
  by pat_completeness auto
termination
  by (relation "measure length") (auto simp: length_dropWhile_le less_Suc_eq_le)

definition has_class :: "pystr \<Rightarrow> node \<Rightarrow> bool" where
  "has_class cls k =
     (case get_attr k (ascii ''class'') of None \<Rightarrow> False | Some v \<Rightarrow> cls \<in> set (py_words v))"

text \<open>\<open>find_all(nm, class_=cls)\<close>.\<close>

definition find_all_class :: "pystr \<Rightarrow> pystr \<Rightarrow> node \<Rightarrow> node list" where
  "find_all_class nm cls root =
     filter (\<lambda>k. node_name k = Some nm \<and> has_class cls k) (descendants root)"

text \<open>\<open>tag.text\<close>, \<open>tag.get_text()\<close>: the text nodes below, concatenated.\<close>

fun get_text :: "node \<Rightarrow> pystr" where
  "get_text (Tag n a kids) = concat (map get_text kids)"
| "get_text (NavigableString s) = s"

text \<open>
  \<open>tag.string\<close>: the text of an element whose only child is a text node, or whose only
  child is an element with a \<open>.string\<close>.
\<close>

fun node_string :: "node \<Rightarrow> pystr option" where
  "node_string (NavigableString s) = Some s"
| "node_string (Tag n a [k]) = node_string k"
| "node_string (Tag n a kids) = None"

section \<open>Records\<close>

text \<open>
  The dictionaries of the scripts. \<open>local_file\<close> is the key that the download stage adds
  when the detail page is on disk; \<open>role\<close> is the key that the lower-chamber detail
  parser adds when text follows the anchor.
\<close>

datatype error = KeyError | AttributeError | FileNotFoundError | ValueError

record deputy =
  d_name :: pystr
  d_url :: pystr
  d_id :: pystr
  d_group :: pystr
  d_local_file :: "pystr option"

text \<open>The record of \<open>extract-deputies.py\<close>, which also keeps the constituency.\<close>

record basic_deputy =
  b_id :: pystr
  b_name :: pystr
  b_constituency :: pystr
  b_group :: pystr
  b_url :: pystr

record senator =
  s_id :: pystr
  s_name :: pystr
  s_birth_date :: pystr
  s_constituency :: pystr
  s_group :: pystr
  s_url :: pystr
  s_local_file :: "pystr option"

record committee =
  c_name :: pystr
  c_url :: pystr
  c_role :: "pystr option"

text \<open>The constructor arguments of both scraper classes.\<close>

record scraper =
  base_url :: pystr
  use_cache :: bool

section \<open>Listing Parser, lower chamber\<close>

text \<open>
  \<open>ParliamentScraper.extract_deputies_from_file\<close>. The pattern \<open>idm=(\d+)\<close> is
  \<open>re_search_group\<close> with the class \<open>\d\<close>, the decimal digits of Python's \<open>re\<close>
  module, which is a parameter (\<open>digit\<close>) of the model.
\<close>

definition deputy_url :: "pystr \<Rightarrow> pystr" where
  "deputy_url deputy_id = ascii ''https://cdep.ro/pls/parlam/structura2015.mp?idm='' @ deputy_id"

definition search_idm :: "(nat \<Rightarrow> bool) \<Rightarrow> pystr \<Rightarrow> pystr option" where
  "search_idm digit href = re_search_group (ascii ''idm='') digit href"

text \<open>
  The test that picks the target table: more than one row, and the second row has at
  least four cells, the second of them holding an anchor whose \<open>href\<close> contains \<open>idm=\<close>.
\<close>

definition is_deputies_table :: "node \<Rightarrow> bool" where
  "is_deputies_table table =
     (case find_all (ascii ''tr'') table of
        r0 # first_row # _ \<Rightarrow>
          (case find_all (ascii ''td'') first_row of
             c0 # c1 # c2 # c3 # _ \<Rightarrow>
               (case find_first (ascii ''a'') c1 of
                  None \<Rightarrow> False
                | Some link \<Rightarrow>
                    contains (ascii ''idm='')
                      (case get_attr link (ascii ''href'') of None \<Rightarrow> [] | Some h \<Rightarrow> h))
           | _ \<Rightarrow> False)
      | _ \<Rightarrow> False)"

text \<open>
  One pass of the row loop: \<open>Inr None\<close> when the row adds nothing, \<open>Inr (Some d)\<close> when it
  appends \<open>d\<close>, \<open>Inl KeyError\<close> when \<open>link['href']\<close> raises.
\<close>

definition deputy_of_row :: "(nat \<Rightarrow> bool) \<Rightarrow> node \<Rightarrow> error + deputy option" where
  "deputy_of_row digit row =
     (case find_all (ascii ''td'') row of
        c0 # c1 # c2 # c3 # _ \<Rightarrow>
          (case find_first (ascii ''a'') c1 of
             None \<Rightarrow> Inr None
           | Some link \<Rightarrow>
               (case get_attr link (ascii ''href'') of
                  None \<Rightarrow> Inl KeyError
                | Some href \<Rightarrow>
                    (case search_idm digit href of
                       None \<Rightarrow> Inr None
                     | Some deputy_id \<Rightarrow>
                         Inr (Some \<lparr>d_name = strip (get_text link),
                                    d_url = deputy_url deputy_id,
                                    d_id = deputy_id,
                                    d_group = strip (get_text c3),
                                    d_local_file = None\<rparr>))))
      | _ \<Rightarrow> Inr None)"

fun deputy_rows_loop :: "(nat \<Rightarrow> bool) \<Rightarrow> node list \<Rightarrow> deputy list \<Rightarrow> error + deputy list" where
  "deputy_rows_loop digit [] deputies = Inr deputies"
| "deputy_rows_loop digit (row # rows) deputies =
     (case deputy_of_row digit row of
        Inl e \<Rightarrow> Inl e
      | Inr None \<Rightarrow> deputy_rows_loop digit rows deputies
      | Inr (Some d) \<Rightarrow> deputy_rows_loop digit rows (deputies @ [d]))"

definition target_table :: "node \<Rightarrow> node option" where
  "target_table soup = List.find is_deputies_table (find_all (ascii ''table'') soup)"

text \<open>
  The listing is \<open>None\<close> when the file cannot be read. Every exception inside the function
  is caught by its \<open>except Exception\<close>, which returns the empty list.
\<close>

definition extract_deputies_from_file :: "(nat \<Rightarrow> bool) \<Rightarrow> node option \<Rightarrow> deputy list" where
  "extract_deputies_from_file digit listing =
     (case listing of
        None \<Rightarrow> []
      | Some soup \<Rightarrow>
          (case target_table soup of
             None \<Rightarrow> []
           | Some table \<Rightarrow>
               (case deputy_rows_loop digit (drop 1 (find_all (ascii ''tr'') table)) [] of
                  Inl e \<Rightarrow> []
                | Inr deputies \<Rightarrow> deputies)))"

text \<open>
  \<open>extract_deputies\<close> of \<open>extract-deputies.py\<close>: every row of the document but the first.
  Nothing catches the \<open>AttributeError\<close> of a link that holds \<open>idm=\<close> with no digit after it.
\<close>

definition basic_deputy_of_row :: "(nat \<Rightarrow> bool) \<Rightarrow> node \<Rightarrow> error + basic_deputy option" where
  "basic_deputy_of_row digit row =
     (case find_all (ascii ''td'') row of
        c0 # c1 # c2 # c3 # _ \<Rightarrow>
          (case find_first (ascii ''a'') c1 of
             None \<Rightarrow> Inr None
           | Some link \<Rightarrow>
               (case get_attr link (ascii ''href'') of
                  None \<Rightarrow> Inr None
                | Some href \<Rightarrow>
                    if contains (ascii ''idm='') href then
                      (case search_idm digit href of
                         None \<Rightarrow> Inl AttributeError
                       | Some deputy_id \<Rightarrow>
                           Inr (Some \<lparr>b_id = deputy_id,
                                      b_name = strip (get_text link),
                                      b_constituency = strip (get_text c2),
                                      b_group = strip (get_text c3),
                                      b_url = deputy_url deputy_id\<rparr>))
                    else Inr None))
      | _ \<Rightarrow> Inr None)"

fun basic_rows_loop ::
  "(nat \<Rightarrow> bool) \<Rightarrow> node list \<Rightarrow> basic_deputy list \<Rightarrow> error + basic_deputy list"
where
  "basic_rows_loop digit [] deputies = Inr deputies"
| "basic_rows_loop digit (row # rows) deputies =
     (case basic_deputy_of_row digit row of
        Inl e \<Rightarrow> Inl e
      | Inr None \<Rightarrow> basic_rows_loop digit rows deputies
      | Inr (Some d) \<Rightarrow> basic_rows_loop digit rows (deputies @ [d]))"

definition extract_deputies :: "(nat \<Rightarrow> bool) \<Rightarrow> node \<Rightarrow> error + basic_deputy list" where
  "extract_deputies digit soup = basic_rows_loop digit (drop 1 (find_all (ascii ''tr'') soup)) []"

section \<open>Listing Parser, upper chamber\<close>

text \<open>
  \<open>SenatorsScraper.extract_senators_from_file\<close>; \<open>extract_senators\<close> of
  \<open>extract-senators.py\<close> has the same loop with the base URL fixed.
  The label of the constituency line holds U+0163 and U+0103.
\<close>

definition label_birth :: pystr where
  "label_birth = ascii ''Data nasterii:''"

definition label_constituency :: pystr where
  "label_constituency = ascii ''Circumscrip'' @ [355] @ ascii ''ia electoral'' @ [259]"

definition label_group :: pystr where
  "label_group = ascii ''Grupul parlamentar''"

definition senator_url :: "pystr \<Rightarrow> pystr \<Rightarrow> pystr" where
  "senator_url base senator_id = base @ ascii ''/FisaSenator.aspx?ParlamentarID='' @ senator_id"

definition default_base_url :: pystr where
  "default_base_url = ascii ''https://www.senat.ro''"

definition search_ParlamentarID :: "pystr \<Rightarrow> pystr option" where
  "search_ParlamentarID href = re_search_group (ascii ''ParlamentarID='') (\<lambda>c. c \<noteq> 38) href"

text \<open>The loop over the text lines; the state is (birth_date, constituency, group).\<close>

fun scan_lines :: "pystr list \<Rightarrow> pystr \<times> pystr \<times> pystr \<Rightarrow> pystr \<times> pystr \<times> pystr" where
  "scan_lines [] st = st"
| "scan_lines (line # ls) (birth_date, constituency, grp) =
     (if contains label_birth line
      then scan_lines ls (strip (py_replace label_birth [] line), constituency, grp)
      else if contains label_constituency line
      then scan_lines ls (birth_date, strip line, grp)
      else if contains label_group line
      then scan_lines ls (birth_date, constituency, strip line)
      else scan_lines ls (birth_date, constituency, grp))"

definition text_lines :: "node \<Rightarrow> pystr list" where
  "text_lines crd = map strip (filter (\<lambda>line. strip line \<noteq> []) (py_split 10 (get_text crd)))"

text \<open>
  The body of the \<open>try\<close> for one card: \<open>Inr None\<close> is the \<open>continue\<close> of a card with no
  anchor, \<open>Inl AttributeError\<close> is \<open>.group\<close> called on the \<open>None\<close> of a failed search.
\<close>

definition senator_of_card :: "pystr \<Rightarrow> node \<Rightarrow> error + senator option" where
  "senator_of_card base crd =
     (case find_first (ascii ''a'') crd of
        None \<Rightarrow> Inr None
      | Some link \<Rightarrow>
          (case search_ParlamentarID
                  (case get_attr link (ascii ''href'') of None \<Rightarrow> [] | Some h \<Rightarrow> h) of
             None \<Rightarrow> Inl AttributeError
           | Some senator_id \<Rightarrow>
               (case scan_lines (text_lines crd) ([], [], []) of
                  (birth_date, constituency, grp) \<Rightarrow>
                    Inr (Some \<lparr>s_id = senator_id,
                               s_name = fix_chars (strip (get_text link)),
                               s_birth_date = birth_date,
                               s_constituency = fix_chars constituency,
                               s_group = fix_chars grp,
                               s_url = senator_url base senator_id,
                               s_local_file = None\<rparr>))))"

text \<open>The loop over the cards, with its \<open>try\<close> ... \<open>except Exception: continue\<close>.\<close>

fun cards_loop :: "pystr \<Rightarrow> node list \<Rightarrow> senator list \<Rightarrow> senator list" where
  "cards_loop base [] senators = senators"
| "cards_loop base (crd # cards) senators =
     (case senator_of_card base crd of
        Inl e \<Rightarrow> cards_loop base cards senators
      | Inr None \<Rightarrow> cards_loop base cards senators
      | Inr (Some s) \<Rightarrow> cards_loop base cards (senators @ [s]))"

definition senator_cards :: "node \<Rightarrow> node list" where
  "senator_cards soup = find_all_class (ascii ''div'') (ascii ''new-card-without-pics'') soup"

text \<open>An unreadable listing raises here; \<open>process_all\<close> catches it.\<close>

definition extract_senators_from_file :: "pystr \<Rightarrow> node option \<Rightarrow> error + senator list" where
  "extract_senators_from_file base listing =
     (case listing of
        None \<Rightarrow> Inl FileNotFoundError
      | Some soup \<Rightarrow> Inr (cards_loop base (senator_cards soup) []))"

section \<open>Detail Parser\<close>

text \<open>
  \<open>urljoin\<close> of \<open>urllib.parse\<close> is a parameter; it raises \<open>ValueError\<close> on some
  references (\<open>Inl\<close>). The file system maps the path of a detail file to the tree
  BeautifulSoup builds from it; a path that is not there makes \<open>open\<close> raise. Both
  parsers answer every exception with the empty list.
\<close>

type_synonym urljoin = "pystr \<Rightarrow> pystr \<Rightarrow> error + pystr"

type_synonym files = "pystr \<rightharpoonup> node"

subsection \<open>Lower chamber\<close>

text \<open>\<open>element.strip(' -\n\r\t')\<close>: blanks, dashes, line ends and tabs go from both ends.\<close>

definition role_text :: "pystr \<Rightarrow> pystr" where
  "role_text s = strip_chars (ascii '' -'' @ [10, 13, 9]) s"

text \<open>
  The loop over \<open>p_tag.contents\<close> in \<open>ParliamentScraper.parse_deputy_committees\<close>;
  \<open>committees[-1]['role'] = text\<close> sets the role of the last entry.
\<close>

fun contents_loop ::
  "urljoin \<Rightarrow> pystr \<Rightarrow> node list \<Rightarrow> committee list \<Rightarrow> error + committee list"
where
  "contents_loop urljoin base [] committees = Inr committees"
| "contents_loop urljoin base (Tag n a kids # elements) committees =
     (if n = ascii ''a'' then
        (case map_of a (ascii ''href'') of
           None \<Rightarrow> Inl KeyError
         | Some href \<Rightarrow>
             (case urljoin base href of
                Inl e \<Rightarrow> Inl e
              | Inr url \<Rightarrow>
                  contents_loop urljoin base elements
                    (committees @ [\<lparr>c_name = strip (get_text (Tag n a kids)),
                                     c_url = url,
                                     c_role = None\<rparr>])))
      else contents_loop urljoin base elements committees)"
| "contents_loop urljoin base (NavigableString s # elements) committees =
     (if role_text s \<noteq> [] \<and> committees \<noteq> []
      then contents_loop urljoin base elements
             (butlast committees @ [(last committees)\<lparr>c_role := Some (role_text s)\<rparr>])
      else contents_loop urljoin base elements committees)"

definition is_committee_div :: "node \<Rightarrow> bool" where
  "is_committee_div d =
     (case find_first (ascii ''h3'') d of
        None \<Rightarrow> False
      | Some h3 \<Rightarrow> contains (ascii ''Comisii permanente'') (get_text h3))"

definition parse_deputy_committees ::
  "urljoin \<Rightarrow> pystr \<Rightarrow> files \<Rightarrow> pystr \<Rightarrow> committee list"
where
  "parse_deputy_committees urljoin base fs filepath =
     (case fs filepath of
        None \<Rightarrow> []
      | Some soup \<Rightarrow>
          (case List.find is_committee_div (find_all_class (ascii ''div'') (ascii ''boxDep'') soup) of
             None \<Rightarrow> []
           | Some committee_div \<Rightarrow>
               (case find_first (ascii ''p'') committee_div of
                  None \<Rightarrow> []
                | Some p_tag \<Rightarrow>
                    (case contents_loop urljoin base (contents p_tag) [] of
                       Inl e \<Rightarrow> []
                     | Inr committees \<Rightarrow> committees))))"

subsection \<open>Upper chamber\<close>

text \<open>
  \<open>SenatorsScraper.parse_senator_committees\<close>. \<open>find_next\<close> walks the elements of the
  document in document order, so the loop runs over the elements that follow the
  heading in that order (its own children first).
\<close>

definition elements_in_order :: "node \<Rightarrow> node list" where
  "elements_in_order soup = filter (\<lambda>k. node_name k \<noteq> None) (descendants soup)"

definition is_committees_heading :: "node \<Rightarrow> bool" where
  "is_committees_heading k \<longleftrightarrow>
     node_name k = Some (ascii ''h5'') \<and> node_string k = Some (ascii ''Comisii permanente:'')"

fun find_next_loop ::
  "urljoin \<Rightarrow> pystr \<Rightarrow> node list \<Rightarrow> committee list \<Rightarrow> error + committee list"
where
  "find_next_loop urljoin base [] committees = Inr committees"
| "find_next_loop urljoin base (current # following) committees =
     (if node_name current = Some (ascii ''h5'') then Inr committees
      else if node_name current = Some (ascii ''a'') then
        (case get_attr current (ascii ''href'') of
           None \<Rightarrow> Inl KeyError
         | Some href \<Rightarrow>
             (case urljoin base href of
                Inl e \<Rightarrow> Inl e
              | Inr url \<Rightarrow>
                  find_next_loop urljoin base following
                    (committees @ [\<lparr>c_name = fix_chars (strip (get_text current)),
                                     c_url = url,
                                     c_role = None\<rparr>])))
      else find_next_loop urljoin base following committees)"

definition parse_senator_committees ::
  "urljoin \<Rightarrow> pystr \<Rightarrow> files \<Rightarrow> pystr \<Rightarrow> committee list"
where
  "parse_senator_committees urljoin base fs filepath =
     (case fs filepath of
        None \<Rightarrow> []
      | Some soup \<Rightarrow>
          (case dropWhile (\<lambda>k. \<not> is_committees_heading k) (elements_in_order soup) of
             [] \<Rightarrow> []
           | h5 # following \<Rightarrow>
               (case find_next_loop urljoin base following [] of
                  Inl e \<Rightarrow> []
                | Inr committees \<Rightarrow> committees)))"

section \<open>Pipeline\<close>

text \<open>
  What a run reads and changes: the detail files on disk, what the site answers to a
  request for a URL (\<open>None\<close>: the request fails or times out), the URLs requested so far,
  the detail files handed to the detail parser so far, the output file (\<open>None\<close> until
  it is opened; then its rows, the header first), and the paths at which a detail file
  can be opened for writing. Console output, the pause after a download and the JSON
  copy of the listing are left out.
\<close>

record world =
  disk :: files
  site :: "pystr \<rightharpoonup> node"
  fetched :: "pystr list"
  parsed :: "pystr list"
  csv :: "pystr list list option"
  writable :: "pystr \<Rightarrow> bool"

definition writerow :: "pystr list \<Rightarrow> world \<Rightarrow> world" where
  "writerow row w = w\<lparr>csv := map_option (\<lambda>rows. rows @ [row]) (csv w)\<rparr>"

fun writerows :: "pystr list list \<Rightarrow> world \<Rightarrow> world" where
  "writerows [] w = w"
| "writerows (row # rows) w = writerows rows (writerow row w)"

subsection \<open>Lower chamber\<close>

definition deputy_filepath :: "deputy \<Rightarrow> pystr" where
  "deputy_filepath d =
     ascii ''parliament_data/deputies/'' @ ascii ''deputy_'' @ d_id d @ ascii ''_'' @
     py_replace (ascii '' '') (ascii ''_'') (d_name d) @ ascii ''.html''"

text \<open>
  \<open>download_deputy_pages\<close>: with the cache, a record gets its \<open>local_file\<close> when the file
  is on disk; without it, when the page loads. \<open>save_page\<close> catches its own errors, so
  the record gets its \<open>local_file\<close> also when the file could not be written.
\<close>

fun download_deputy_pages :: "scraper \<Rightarrow> deputy list \<Rightarrow> world \<Rightarrow> deputy list \<times> world" where
  "download_deputy_pages self [] w = ([], w)"
| "download_deputy_pages self (d # ds) w =
     (if use_cache self then
        (case download_deputy_pages self ds w of
           (ds', w') \<Rightarrow>
             ((if disk w (deputy_filepath d) \<noteq> None
               then d\<lparr>d_local_file := Some (deputy_filepath d)\<rparr> else d) # ds', w'))
      else
        (case site w (d_url d) of
           None \<Rightarrow>
             (case download_deputy_pages self ds (w\<lparr>fetched := fetched w @ [d_url d]\<rparr>) of
                (ds', w') \<Rightarrow> (d # ds', w'))
         | Some page \<Rightarrow>
             (case download_deputy_pages self ds
                     (w\<lparr>fetched := fetched w @ [d_url d],
                        disk := (if writable w (deputy_filepath d)
                                 then (disk w)(deputy_filepath d \<mapsto> page) else disk w)\<rparr>) of
                (ds', w') \<Rightarrow> (d\<lparr>d_local_file := Some (deputy_filepath d)\<rparr> # ds', w'))))"

definition deputy_header :: "pystr list" where
  "deputy_header =
     [ascii ''Deputy Name'', ascii ''Deputy URL'', ascii ''Deputy ID'',
      ascii ''Parliamentary Group'', ascii ''Committee Name'', ascii ''Committee URL'',
      ascii ''Role'']"

text \<open>The rows written for one deputy whose detail file was parsed.\<close>

definition deputy_rows :: "deputy \<Rightarrow> committee list \<Rightarrow> pystr list list" where
  "deputy_rows d committees =
     (if committees = [] then [[d_name d, d_url d, d_id d, [], [], []]]
      else map (\<lambda>c. [d_name d, d_url d, d_id d, d_group d, c_name c, c_url c,
                       (case c_role c of None \<Rightarrow> [] | Some r \<Rightarrow> r)]) committees)"

fun write_deputies ::
  "urljoin \<Rightarrow> scraper \<Rightarrow> deputy list \<Rightarrow> world \<Rightarrow> world"
where
  "write_deputies urljoin self [] w = w"
| "write_deputies urljoin self (d # ds) w =
     (case d_local_file d of
        None \<Rightarrow> write_deputies urljoin self ds w
      | Some f \<Rightarrow>
          write_deputies urljoin self ds
            (writerows (deputy_rows d (parse_deputy_committees urljoin (base_url self) (disk w) f))
               (w\<lparr>parsed := parsed w @ [f]\<rparr>)))"

text \<open>\<open>ParliamentScraper.process_all\<close>.\<close>

definition process_all_deputies ::
  "(nat \<Rightarrow> bool) \<Rightarrow> urljoin \<Rightarrow> scraper \<Rightarrow> node option \<Rightarrow> world \<Rightarrow> world"
where
  "process_all_deputies digit urljoin self listing w =
     (case extract_deputies_from_file digit listing of
        [] \<Rightarrow> w
      | d # ds \<Rightarrow>
          (case download_deputy_pages self (d # ds) w of
             (deputies, w') \<Rightarrow>
               write_deputies urljoin self deputies (w'\<lparr>csv := Some [deputy_header]\<rparr>)))"

subsection \<open>Upper chamber\<close>

text \<open>
  \<open>download_senator_pages\<close>: the request, the write of the file and the assignment of
  \<open>local_file\<close> are in one \<open>try\<close>, so a failed request or a failed write leaves the record
  without \<open>local_file\<close>.
\<close>

definition senator_filepath :: "senator \<Rightarrow> pystr" where
  "senator_filepath s = ascii ''senate_data/senators/'' @ ascii ''senator_'' @ s_id s @ ascii ''.html''"

fun download_senator_pages :: "scraper \<Rightarrow> senator list \<Rightarrow> world \<Rightarrow> senator list \<times> world" where
  "download_senator_pages self [] w = ([], w)"
| "download_senator_pages self (s # ss) w =
     (if use_cache self \<and> disk w (senator_filepath s) \<noteq> None then
        (case download_senator_pages self ss w of
           (ss', w') \<Rightarrow> (s\<lparr>s_local_file := Some (senator_filepath s)\<rparr> # ss', w'))
      else
        (case site w (s_url s) of
           None \<Rightarrow>
             (case download_senator_pages self ss (w\<lparr>fetched := fetched w @ [s_url s]\<rparr>) of
                (ss', w') \<Rightarrow> (s # ss', w'))
         | Some page \<Rightarrow>
             (if writable w (senator_filepath s) then
                (case download_senator_pages self ss
                        (w\<lparr>fetched := fetched w @ [s_url s],
                           disk := (disk w)(senator_filepath s \<mapsto> page)\<rparr>) of
                   (ss', w') \<Rightarrow> (s\<lparr>s_local_file := Some (senator_filepath s)\<rparr> # ss', w'))
              else
                (case download_senator_pages self ss (w\<lparr>fetched := fetched w @ [s_url s]\<rparr>) of
                   (ss', w') \<Rightarrow> (s # ss', w')))))"

definition senator_header :: "pystr list" where
  "senator_header =
     [ascii ''Senator Name'', ascii ''Senator URL'', ascii ''Senator ID'', ascii ''Birth Date'',
      ascii ''Constituency'', ascii ''Parliamentary Group'', ascii ''Committee Name'',
      ascii ''Committee URL'']"

definition senator_rows :: "senator \<Rightarrow> committee list \<Rightarrow> pystr list list" where
  "senator_rows s committees =
     (if committees = []
      then [[s_name s, s_url s, s_id s, s_birth_date s, s_constituency s, s_group s, [], []]]
      else map (\<lambda>c. [s_name s, s_url s, s_id s, s_birth_date s, s_constituency s, s_group s,
                       c_name c, c_url c]) committees)"

fun write_senators ::
  "urljoin \<Rightarrow> scraper \<Rightarrow> senator list \<Rightarrow> world \<Rightarrow> world"
where
  "write_senators urljoin self [] w = w"
| "write_senators urljoin self (s # ss) w =
     (case s_local_file s of
        None \<Rightarrow> write_senators urljoin self ss w
      | Some f \<Rightarrow>
          write_senators urljoin self ss
            (writerows (senator_rows s (parse_senator_committees urljoin (base_url self) (disk w) f))
               (w\<lparr>parsed := parsed w @ [f]\<rparr>)))"

text \<open>
  \<open>SenatorsScraper.process_all\<close>. An unreadable listing raises inside the \<open>try\<close>, before
  anything else is done.
\<close>

definition process_all_senators ::
  "urljoin \<Rightarrow> scraper \<Rightarrow> node option \<Rightarrow> world \<Rightarrow> world"
where
  "process_all_senators urljoin self listing w =
     (case extract_senators_from_file (base_url self) listing of
        Inl e \<Rightarrow> w
      | Inr [] \<Rightarrow> w
      | Inr (s # ss) \<Rightarrow>
          (case download_senator_pages self (s # ss) w of
             (senators, w') \<Rightarrow>
               write_senators urljoin self senators (w'\<lparr>csv := Some [senator_header]\<rparr>)))"

section \<open>Example inputs\<close>

text \<open>The ASCII digits, which \<open>\d\<close> matches.\<close>

definition ascii_digit :: "nat \<Rightarrow> bool" where
  "ascii_digit c \<longleftrightarrow> 48 \<le> c \<and> c \<le> 57"

definition text_node :: "string \<Rightarrow> node" where
  "text_node s = NavigableString (ascii s)"

definition anchor :: "string \<Rightarrow> string \<Rightarrow> node" where
  "anchor href s = Tag (ascii ''a'') [(ascii ''href'', ascii href)] [text_node s]"

definition anchor_without_href :: "string \<Rightarrow> node" where
  "anchor_without_href s = Tag (ascii ''a'') [(ascii ''name'', ascii ''top'')] [text_node s]"

definition element :: "string \<Rightarrow> node list \<Rightarrow> node" where
  "element nm kids = Tag (ascii nm) [] kids"

text \<open>A row of the deputies table: number, linked name, constituency, group.\<close>

definition example_row :: "string \<Rightarrow> string \<Rightarrow> node" where
  "example_row href nm =
     element ''tr''
       [element ''td'' [text_node ''1''],
        element ''td'' [anchor href nm],
        element ''td'' [text_node ''Cluj''],
        element ''td'' [text_node ''PSD'']]"

definition ion_pop :: deputy where
  "ion_pop = \<lparr>d_name = ascii ''Ion Pop'', d_url = deputy_url (ascii ''123''),
              d_id = ascii ''123'', d_group = ascii ''PSD'', d_local_file = None\<rparr>"

definition ion_pop_basic :: basic_deputy where
  "ion_pop_basic = \<lparr>b_id = ascii ''123'', b_name = ascii ''Ion Pop'',
                    b_constituency = ascii ''Cluj'', b_group = ascii ''PSD'',
                    b_url = deputy_url (ascii ''123'')\<rparr>"

text \<open>A senator card: linked name, then labelled lines.\<close>

definition example_card :: node where
  "example_card =
     Tag (ascii ''div'') [(ascii ''class'', ascii ''col new-card-without-pics'')]
       [anchor ''FisaSenator.aspx?ParlamentarID=ab-12&x=1'' ''Popescu Ion'',
        NavigableString ([10] @ ascii ''Data nasterii: 01.02.1970'' @ [10]),
        element ''p'' [NavigableString (label_constituency @ ascii '' nr.13 CLUJ'' @ [10])],
        element ''p'' [NavigableString (ascii ''Grupul parlamentar PSD'' @ [10])]]"

definition popescu :: senator where
  "popescu = \<lparr>s_id = ascii ''ab-12'', s_name = ascii ''Popescu Ion'',
              s_birth_date = ascii ''01.02.1970'',
              s_constituency = label_constituency @ ascii '' nr.13 CLUJ'',
              s_group = ascii ''Grupul parlamentar PSD'',
              s_url = senator_url default_base_url (ascii ''ab-12''),
              s_local_file = None\<rparr>"

text \<open>The rows that hold cell text; the second row below has no \<open>idm\<close> in its link.\<close>

definition good_row :: node where
  "good_row = example_row ''structura2015.mp?idm=123&cam=2'' '' Ion Pop ''"

definition bad_row :: node where
  "bad_row = example_row ''structura2015.mp?cam=2'' ''Ana Dinu''"

definition header_row :: node where
  "header_row = element ''tr'' [element ''th'' [text_node ''Nr.'']]"

definition deputies_table :: "node list \<Rightarrow> node" where
  "deputies_table rows = element ''table'' (header_row # rows)"

definition document :: "node list \<Rightarrow> node" where
  "document kids = Tag (ascii ''[document]'') [] kids"

definition card_without_link :: node where
  "card_without_link =
     Tag (ascii ''div'') [(ascii ''class'', ascii ''new-card-without-pics'')]
       [text_node ''Grupul parlamentar PNL'']"

text \<open>
  An instance of \<open>urljoin\<close>: what it gives for a base without a path and a reference that
  starts with a slash.
\<close>

definition example_urljoin :: urljoin where
  "example_urljoin base href = Inr (base @ href)"

definition cdep :: "bool \<Rightarrow> scraper" where
  "cdep cache = \<lparr>base_url = ascii ''http://www.cdep.ro'', use_cache = cache\<rparr>"

definition senat :: "bool \<Rightarrow> scraper" where
  "senat cache = \<lparr>base_url = default_base_url, use_cache = cache\<rparr>"

text \<open>
  A run that starts with no detail file on disk and a site that answers nothing;
  every path can be written.
\<close>

definition fresh_world :: world where
  "fresh_world = \<lparr>disk = Map.empty, site = Map.empty, fetched = [], parsed = [], csv = None,
                   writable = (\<lambda>path. True)\<rparr>"

definition cached_world :: "pystr \<Rightarrow> node \<Rightarrow> world" where
  "cached_world path page = fresh_world\<lparr>disk := [path \<mapsto> page]\<rparr>"

text \<open>Records of the listing that never got a detail file.\<close>

definition ana_dinu :: deputy where
  "ana_dinu = \<lparr>d_name = ascii ''Ana Dinu'', d_url = deputy_url (ascii ''456''),
               d_id = ascii ''456'', d_group = ascii ''PNL'', d_local_file = None\<rparr>"

definition ionescu :: senator where
  "ionescu = \<lparr>s_id = ascii ''cd-34'', s_name = ascii ''Ionescu Dan'',
              s_birth_date = ascii ''03.04.1965'', s_constituency = [],
              s_group = ascii ''Grupul parlamentar PNL'',
              s_url = senator_url default_base_url (ascii ''cd-34''),
              s_local_file = None\<rparr>"

definition ion_pop_file :: pystr where
  "ion_pop_file = ascii ''parliament_data/deputies/deputy_123_Ion_Pop.html''"

definition popescu_file :: pystr where
  "popescu_file = ascii ''senate_data/senators/senator_ab-12.html''"

text \<open>Detail pages, and the associations that the example \<open>urljoin\<close> gives for them.\<close>

definition boxDep :: "node list \<Rightarrow> node" where
  "boxDep kids = Tag (ascii ''div'') [(ascii ''class'', ascii ''boxDep'')] kids"

definition deputy_page :: "node list \<Rightarrow> node" where
  "deputy_page paragraph =
     document [boxDep [element ''h3'' [text_node ''Comisii permanente''],
                       element ''p'' paragraph]]"

definition senator_page :: "node list \<Rightarrow> node" where
  "senator_page rest =
     document (element ''h5'' [text_node ''Comisii permanente:''] # rest)"

definition example_committee :: "scraper \<Rightarrow> string \<Rightarrow> string \<Rightarrow> pystr option \<Rightarrow> committee" where
  "example_committee self href nm role =
     \<lparr>c_name = ascii nm, c_url = base_url self @ ascii href, c_role = role\<rparr>"

section \<open>Notions used in the statements\<close>

text \<open>
  An anchor whose \<open>href\<close> is there and is accepted by \<open>urljoin\<close>, and the association that
  the upper-chamber detail parser builds from it.
\<close>

definition resolves :: "urljoin \<Rightarrow> pystr \<Rightarrow> node \<Rightarrow> bool" where
  "resolves urljoin base k =
     (case get_attr k (ascii ''href'') of
        None \<Rightarrow> False
      | Some href \<Rightarrow> (case urljoin base href of Inl e \<Rightarrow> False | Inr url \<Rightarrow> True))"

definition senate_association :: "urljoin \<Rightarrow> pystr \<Rightarrow> node \<Rightarrow> committee" where
  "senate_association urljoin base k =
     \<lparr>c_name = fix_chars (strip (get_text k)),
      c_url = (case get_attr k (ascii ''href'') of
                 None \<Rightarrow> []
               | Some href \<Rightarrow> (case urljoin base href of Inl e \<Rightarrow> [] | Inr url \<Rightarrow> url)),
      c_role = None\<rparr>"

text \<open>A row, a card that yields a record.\<close>

definition qualifying_row :: "(nat \<Rightarrow> bool) \<Rightarrow> node \<Rightarrow> bool" where
  "qualifying_row digit row =
     (case deputy_of_row digit row of Inr (Some d) \<Rightarrow> True | _ \<Rightarrow> False)"

definition qualifying_card :: "pystr \<Rightarrow> node \<Rightarrow> bool" where
  "qualifying_card base crd =
     (case senator_of_card base crd of Inr (Some s) \<Rightarrow> True | _ \<Rightarrow> False)"

text \<open>
  The last line with a property, and the lines that reach the second and the third branch
  of the \<open>if\<close> ... \<open>elif\<close> chain of the card loop.
\<close>

definition last_line :: "(pystr \<Rightarrow> bool) \<Rightarrow> pystr list \<Rightarrow> pystr option" where
  "last_line P ls = List.find P (rev ls)"

definition constituency_line :: "pystr \<Rightarrow> bool" where
  "constituency_line l \<longleftrightarrow> \<not> contains label_birth l \<and> contains label_constituency l"

definition group_line :: "pystr \<Rightarrow> bool" where
  "group_line l \<longleftrightarrow>
     \<not> contains label_birth l \<and> \<not> contains label_constituency l \<and> contains label_group l"

section \<open>Properties\<close>

subsection \<open>Strings and patterns\<close>

lemmas example_defs =
  ascii_def text_node_def anchor_def anchor_without_href_def element_def example_row_def
  example_card_def ion_pop_def ion_pop_basic_def popescu_def ascii_digit_def good_row_def
  bad_row_def
  header_row_def deputies_table_def document_def card_without_link_def example_urljoin_def
  cdep_def senat_def fresh_world_def cached_world_def ion_pop_file_def popescu_file_def
  boxDep_def deputy_page_def senator_page_def example_committee_def ana_dinu_def ionescu_def

lemmas string_defs = strip_def strip_with_def strip_chars_def isspace_def role_text_def

lemmas search_defs = find_all_def find_first_def find_all_class_def has_class_def

lemma takeWhile_all: "\<forall>c\<in>set xs. P c \<Longrightarrow> takeWhile P xs = xs"
  by (induction xs) auto

lemma re_search_group_class:
  "re_search_group lit cls s = Some g \<Longrightarrow> g \<noteq> [] \<and> (\<forall>c\<in>set g. cls c)"
  by (induction s) (auto split: if_splits dest: set_takeWhileD)

lemma py_replace_single: "py_replace [a] [b] s = map (\<lambda>c. if c = a then b else c) s"
  by (induction s) auto

lemma fix_chars_map: "fix_chars s = map fix_char s"
  by (induction s) (auto simp: fix_chars_def replacements_def py_replace_single fix_char_def)

lemma fix_char_idem: "fix_char (fix_char c) = fix_char c"
  by (simp add: fix_char_def)

lemma fix_chars_idem: "fix_chars (fix_chars s) = fix_chars s"
  by (simp add: fix_chars_map fix_char_idem)

lemma fix_chars_Nil: "fix_chars [] = []"
  by (simp add: fix_chars_map)

lemma example_row_deputy:
  "deputy_of_row ascii_digit (example_row ''structura2015.mp?idm=123&cam=2'' '' Ion Pop '')
     = Inr (Some ion_pop)"
  by (simp add: deputy_of_row_def search_defs search_idm_def example_defs string_defs)

lemma example_card_senator: "senator_of_card default_base_url example_card = Inr (Some popescu)"
  by (simp add: senator_of_card_def search_defs search_ParlamentarID_def example_defs
      string_defs text_lines_def label_birth_def label_constituency_def label_group_def
      fix_chars_def replacements_def)

subsection \<open>Character Normalizer\<close>

text \<open>
  C8. The Character Normalizer is idempotent: applied twice, \<open>fix_romanian_chars\<close> gives
  what it gives applied once, for every Python value. A value that is not a string
  (\<open>None\<close>, a number) and the empty string are returned unchanged. The function is a
  pure function of its argument: it reads and changes nothing else.
\<close>

theorem fix_romanian_chars_idempotent:
  "fix_romanian_chars (fix_romanian_chars x) = fix_romanian_chars x
   \<and> fix_romanian_chars PyNone = PyNone
   \<and> fix_romanian_chars (PyInt n) = PyInt n
   \<and> fix_romanian_chars (Str []) = Str []"
  by (cases x) (simp_all add: fix_chars_idem fix_chars_Nil)

subsection \<open>Profile URL round trip\<close>

lemma search_idm_deputy_url:
  assumes "deputy_id \<noteq> []" and "\<forall>c\<in>set deputy_id. digit c"
  shows "search_idm digit (deputy_url deputy_id) = Some deputy_id"
  using assms by (simp add: search_idm_def deputy_url_def ascii_def takeWhile_all)

lemma search_ParlamentarID_senator_url:
  assumes "senator_id \<noteq> []" and "\<forall>c\<in>set senator_id. c \<noteq> 38"
  shows "search_ParlamentarID (senator_url default_base_url senator_id) = Some senator_id"
  using assms
  by (simp add: search_ParlamentarID_def senator_url_def default_base_url_def ascii_def
      takeWhile_all)

lemma deputy_of_row_id:
  "deputy_of_row digit row = Inr (Some d) \<Longrightarrow>
   d_url d = deputy_url (d_id d) \<and> d_id d \<noteq> [] \<and> (\<forall>c\<in>set (d_id d). digit c)"
  by (auto simp: deputy_of_row_def search_idm_def split: list.splits option.splits
      dest: re_search_group_class)

lemma senator_of_card_id:
  "senator_of_card base crd = Inr (Some s) \<Longrightarrow>
   s_url s = senator_url base (s_id s) \<and> s_id s \<noteq> [] \<and> (\<forall>c\<in>set (s_id s). c \<noteq> 38)"
  by (auto simp: senator_of_card_def search_ParlamentarID_def
      split: list.splits option.splits prod.splits dest!: re_search_group_class)

lemma basic_deputy_of_row_id:
  "basic_deputy_of_row digit row = Inr (Some b) \<Longrightarrow>
   b_url b = deputy_url (b_id b) \<and> b_id b \<noteq> [] \<and> (\<forall>c\<in>set (b_id b). digit c)"
  by (auto simp: basic_deputy_of_row_def search_idm_def
      split: list.splits option.splits if_splits dest: re_search_group_class)

lemma example_row_basic_deputy:
  "basic_deputy_of_row ascii_digit
     (example_row ''structura2015.mp?idm=123&cam=2'' '' Ion Pop '') = Inr (Some ion_pop_basic)"
  by (simp add: basic_deputy_of_row_def search_defs search_idm_def example_defs string_defs)

text \<open>
  C9. For an id the listing parser can produce (a non-empty string of digits for the lower
  chamber, a non-empty string without \<open>&\<close> for the upper chamber), the profile URL built
  from the id by the source's template gives the id back under the source's pattern.
  The same holds for the \<open>url\<close> and \<open>id\<close> of every record that the row loops of both
  deputy scripts and the card loop build. (38 is the code point of \<open>&\<close>.)
\<close>

theorem profile_url_round_trip:
  "(deputy_id \<noteq> [] \<and> (\<forall>c\<in>set deputy_id. digit c) \<longrightarrow>
      search_idm digit (deputy_url deputy_id) = Some deputy_id)
   \<and> (senator_id \<noteq> [] \<and> (\<forall>c\<in>set senator_id. c \<noteq> 38) \<longrightarrow>
      search_ParlamentarID (senator_url default_base_url senator_id) = Some senator_id)
   \<and> (deputy_of_row digit row = Inr (Some d) \<longrightarrow> search_idm digit (d_url d) = Some (d_id d))
   \<and> (basic_deputy_of_row digit row = Inr (Some b) \<longrightarrow>
      search_idm digit (b_url b) = Some (b_id b))
   \<and> (senator_of_card default_base_url crd = Inr (Some s) \<longrightarrow>
      search_ParlamentarID (s_url s) = Some (s_id s))"
  using search_idm_deputy_url search_ParlamentarID_senator_url
    deputy_of_row_id[of digit row d] basic_deputy_of_row_id[of digit row b]
    senator_of_card_id[of default_base_url crd s]
  by auto

theorem profile_url_round_trip_witness:
  "ascii ''123'' \<noteq> [] \<and> list_all ascii_digit (ascii ''123'')
   \<and> search_idm ascii_digit (deputy_url (ascii ''123'')) = Some (ascii ''123'')
   \<and> ascii ''ab-12'' \<noteq> [] \<and> list_all (\<lambda>c. c \<noteq> 38) (ascii ''ab-12'')
   \<and> search_ParlamentarID (senator_url default_base_url (ascii ''ab-12'')) = Some (ascii ''ab-12'')
   \<and> deputy_of_row ascii_digit (example_row ''structura2015.mp?idm=123&cam=2'' '' Ion Pop '')
       = Inr (Some ion_pop)
   \<and> search_idm ascii_digit (d_url ion_pop) = Some (d_id ion_pop)
   \<and> basic_deputy_of_row ascii_digit
        (example_row ''structura2015.mp?idm=123&cam=2'' '' Ion Pop '') = Inr (Some ion_pop_basic)
   \<and> search_idm ascii_digit (b_url ion_pop_basic) = Some (b_id ion_pop_basic)
   \<and> senator_of_card default_base_url example_card = Inr (Some popescu)
   \<and> search_ParlamentarID (s_url popescu) = Some (s_id popescu)"
proof -
  have h1: "ascii ''123'' \<noteq> [] \<and> (\<forall>c\<in>set (ascii ''123''). ascii_digit c)"
    by (simp add: ascii_def ascii_digit_def)
  have h2: "ascii ''ab-12'' \<noteq> [] \<and> (\<forall>c\<in>set (ascii ''ab-12''). c \<noteq> 38)"
    by (simp add: ascii_def)
  show ?thesis
    using h1 h2 example_row_deputy example_row_basic_deputy example_card_senator
      profile_url_round_trip[where deputy_id = "ascii ''123''" and digit = ascii_digit
        and senator_id = "ascii ''ab-12''"
        and row = "example_row ''structura2015.mp?idm=123&cam=2'' '' Ion Pop ''"
        and d = ion_pop and b = ion_pop_basic and crd = example_card and s = popescu]
    by (simp add: list_all_iff)
qed

subsection \<open>Listing parser: items that add nothing\<close>

lemma find_Some_in: "List.find P xs = Some x \<Longrightarrow> x \<in> set xs \<and> P x"
  by (induction xs) (auto split: if_splits)

lemma deputy_rows_loop_append:
  "deputy_rows_loop digit (xs @ ys) acc =
     (case deputy_rows_loop digit xs acc of
        Inl e \<Rightarrow> Inl e
      | Inr acc' \<Rightarrow> deputy_rows_loop digit ys acc')"
  by (induction xs arbitrary: acc) (auto split: sum.splits option.splits)

lemma cards_loop_append:
  "cards_loop base (xs @ ys) acc = cards_loop base ys (cards_loop base xs acc)"
  by (induction xs arbitrary: acc) (auto split: sum.splits option.splits)

lemma deputy_rows_loop_none:
  "\<forall>r\<in>set rows. \<not> qualifying_row digit r \<Longrightarrow>
   deputy_rows_loop digit rows acc = Inr acc \<or> (\<exists>e. deputy_rows_loop digit rows acc = Inl e)"
  by (induction rows arbitrary: acc)
     (auto simp: qualifying_row_def split: sum.splits option.splits)

lemma cards_loop_none:
  "\<forall>c\<in>set cards. \<not> qualifying_card base c \<Longrightarrow> cards_loop base cards acc = acc"
  by (induction cards arbitrary: acc)
     (auto simp: qualifying_card_def split: sum.splits option.splits)

lemma target_table_in:
  "target_table soup = Some t \<Longrightarrow> t \<in> set (find_all (ascii ''table'') soup)"
  using find_Some_in[of is_deputies_table "find_all (ascii ''table'') soup" t]
  by (simp add: target_table_def)

lemma extract_none:
  assumes "\<forall>t\<in>set (find_all (ascii ''table'') soup).
             \<forall>r\<in>set (find_all (ascii ''tr'') t). \<not> qualifying_row digit r"
  shows "extract_deputies_from_file digit (Some soup) = []"
proof (cases "target_table soup")
  case None
  then show ?thesis by (simp add: extract_deputies_from_file_def)
next
  case (Some t)
  then have "\<forall>r\<in>set (drop 1 (find_all (ascii ''tr'') t)). \<not> qualifying_row digit r"
    using assms target_table_in[OF Some] by (meson in_set_dropD)
  from deputy_rows_loop_none[OF this, of "[]"] Some show ?thesis
    by (auto simp: extract_deputies_from_file_def)
qed

lemma good_row_deputy: "deputy_of_row ascii_digit good_row = Inr (Some ion_pop)"
  by (simp add: good_row_def example_row_deputy)

lemma bad_row_skipped: "deputy_of_row ascii_digit bad_row = Inr None"
  by (simp add: deputy_of_row_def search_defs search_idm_def example_defs string_defs)

lemma header_row_skipped: "deputy_of_row ascii_digit header_row = Inr None"
  by (simp add: deputy_of_row_def search_defs example_defs)

lemma card_without_link_skipped: "senator_of_card base card_without_link = Inr None"
  by (simp add: senator_of_card_def search_defs example_defs)

lemma find_all_rows:
  "find_all (ascii ''tr'') (deputies_table [good_row, bad_row, good_row])
     = [header_row, good_row, bad_row, good_row]"
  by (simp add: search_defs example_defs)

lemma target_table_example:
  "target_table (document [deputies_table [good_row, bad_row, good_row]])
     = Some (deputies_table [good_row, bad_row, good_row])"
  by (simp add: target_table_def is_deputies_table_def search_defs example_defs)

lemma extract_example_listing:
  "extract_deputies_from_file ascii_digit (Some (document [deputies_table [good_row]]))
     = [ion_pop]"
  by (simp add: extract_deputies_from_file_def target_table_def is_deputies_table_def
      deputy_of_row_def search_idm_def search_defs example_defs string_defs)

text \<open>
  C4, in the form that holds of the code. A listing with no qualifying row (lower chamber)
  or no qualifying card (upper chamber) yields the empty record sequence, and the run then
  leaves the world as it found it: no URL is requested, no detail file is parsed, and no
  output file is written, not even the header row.
\<close>

theorem empty_listing_no_output:
  "((\<forall>t\<in>set (find_all (ascii ''table'') soup).
       \<forall>r\<in>set (find_all (ascii ''tr'') t). \<not> qualifying_row digit r) \<longrightarrow>
      extract_deputies_from_file digit (Some soup) = []
      \<and> process_all_deputies digit urljoin self (Some soup) w = w)
   \<and> ((\<forall>c\<in>set (senator_cards soup'). \<not> qualifying_card (base_url self') c) \<longrightarrow>
      extract_senators_from_file (base_url self') (Some soup') = Inr []
      \<and> process_all_senators urljoin self' (Some soup') w' = w')"
  by (simp add: extract_none process_all_deputies_def process_all_senators_def
      extract_senators_from_file_def cards_loop_none)

theorem empty_listing_no_output_witness:
  "list_all (\<lambda>t. list_all (\<lambda>r. \<not> qualifying_row ascii_digit r) (find_all (ascii ''tr'') t))
      (find_all (ascii ''table'') (document [deputies_table [bad_row]]))
   \<and> extract_deputies_from_file ascii_digit (Some (document [deputies_table [bad_row]])) = []
   \<and> process_all_deputies ascii_digit example_urljoin (cdep False)
        (Some (document [deputies_table [bad_row]])) fresh_world = fresh_world
   \<and> list_all (\<lambda>c. \<not> qualifying_card (base_url (senat False)) c)
        (senator_cards (document [card_without_link]))
   \<and> extract_senators_from_file (base_url (senat False)) (Some (document [card_without_link]))
        = Inr []
   \<and> process_all_senators example_urljoin (senat False) (Some (document [card_without_link]))
        fresh_world = fresh_world"
proof -
  have rows: "find_all (ascii ''table'') (document [deputies_table [bad_row]])
                = [deputies_table [bad_row]]"
    "find_all (ascii ''tr'') (deputies_table [bad_row]) = [header_row, bad_row]"
    by (simp_all add: search_defs example_defs)
  have h1: "\<forall>t\<in>set (find_all (ascii ''table'') (document [deputies_table [bad_row]])).
      \<forall>r\<in>set (find_all (ascii ''tr'') t). \<not> qualifying_row ascii_digit r"
    by (simp add: rows qualifying_row_def bad_row_skipped header_row_skipped)
  have cards: "senator_cards (document [card_without_link]) = [card_without_link]"
    by (simp add: senator_cards_def search_defs example_defs string_defs)
  have h2: "\<forall>c\<in>set (senator_cards (document [card_without_link])).
        \<not> qualifying_card (base_url (senat False)) c"
    by (simp add: cards qualifying_card_def card_without_link_skipped)
  show ?thesis
    using h1 h2
      empty_listing_no_output[where soup = "document [deputies_table [bad_row]]"
        and digit = ascii_digit and urljoin = example_urljoin and self = "cdep False"
        and w = fresh_world and soup' = "document [card_without_link]"
        and self' = "senat False" and w' = fresh_world]
    by (simp add: list_all_iff)
qed

theorem empty_listing_header_counterexample:
  "extract_deputies_from_file ascii_digit (Some (document [])) = []
   \<and> csv (process_all_deputies ascii_digit example_urljoin (cdep False) (Some (document []))
            fresh_world) = None
   \<and> csv (process_all_deputies ascii_digit example_urljoin (cdep False) (Some (document []))
            fresh_world) \<noteq> Some [deputy_header]"
  by (simp add: process_all_deputies_def extract_deputies_from_file_def target_table_def
      search_defs document_def fresh_world_def)

lemma skipped_item_isolated:
  "(deputy_of_row digit row = Inr None \<longrightarrow>
      deputy_rows_loop digit (before @ row # after) deputies
        = deputy_rows_loop digit (before @ after) deputies)
   \<and> (deputy_of_row digit row = Inr None \<and> target_table soup = Some table
        \<and> drop 1 (find_all (ascii ''tr'') table) = before @ row # after \<longrightarrow>
      extract_deputies_from_file digit (Some soup)
        = (case deputy_rows_loop digit (before @ after) [] of Inl e \<Rightarrow> [] | Inr ds \<Rightarrow> ds))
   \<and> (\<not> qualifying_card base crd \<longrightarrow>
      cards_loop base (cards_before @ crd # cards_after) senators
        = cards_loop base (cards_before @ cards_after) senators)
   \<and> (\<not> qualifying_card base crd \<and> senator_cards soup' = cards_before @ crd # cards_after \<longrightarrow>
      extract_senators_from_file base (Some soup') = Inr (cards_loop base (cards_before @ cards_after) []))"
  by (auto simp: deputy_rows_loop_append cards_loop_append extract_deputies_from_file_def
      extract_senators_from_file_def qualifying_card_def split: sum.splits option.splits)

lemma unpicked_table:
  assumes "\<forall>t\<in>set (find_all (ascii ''table'') listing). \<not> is_deputies_table t"
  shows "extract_deputies_from_file digit (Some listing) = []"
proof -
  have "target_table listing = None"
    using assms by (simp add: target_table_def find_None_iff)
  then show ?thesis by (simp add: extract_deputies_from_file_def)
qed

text \<open>
  C5, in the form that holds of the code. Upper chamber: a card that yields no record (no
  anchor, or no \<open>ParlamentarID\<close> in its link) is skipped, and the cards before
  and after it are processed as if it were not there. Lower chamber: once the target table
  has been picked by its first data row, a row that yields no record (fewer than four
  cells, no anchor in the second cell, or a link without \<open>idm=\<close> and digits)
  is skipped, and the rows before and after it are processed as if it were not there.
  When no table of the listing passes the test on its first data row, no table is picked
  and the record set is empty.
\<close>

theorem skipped_item_only:
  "(deputy_of_row digit row = Inr None \<longrightarrow>
      deputy_rows_loop digit (before @ row # after) deputies
        = deputy_rows_loop digit (before @ after) deputies)
   \<and> (deputy_of_row digit row = Inr None \<and> target_table soup = Some table
        \<and> drop 1 (find_all (ascii ''tr'') table) = before @ row # after \<longrightarrow>
      extract_deputies_from_file digit (Some soup)
        = (case deputy_rows_loop digit (before @ after) [] of Inl e \<Rightarrow> [] | Inr ds \<Rightarrow> ds))
   \<and> (\<not> qualifying_card base crd \<longrightarrow>
      cards_loop base (cards_before @ crd # cards_after) senators
        = cards_loop base (cards_before @ cards_after) senators)
   \<and> (\<not> qualifying_card base crd \<and> senator_cards soup' = cards_before @ crd # cards_after \<longrightarrow>
      extract_senators_from_file base (Some soup') = Inr (cards_loop base (cards_before @ cards_after) []))
   \<and> ((\<forall>t\<in>set (find_all (ascii ''table'') listing). \<not> is_deputies_table t) \<longrightarrow>
      extract_deputies_from_file digit (Some listing) = [])"
  using skipped_item_isolated[where digit = digit and row = row and before = before
      and after = after and deputies = deputies and soup = soup and table = table
      and base = base and crd = crd and cards_before = cards_before
      and cards_after = cards_after and senators = senators and soup' = soup']
    unpicked_table[of listing digit]
  by blast

theorem skipped_item_only_witness:
  "deputy_of_row ascii_digit bad_row = Inr None
   \<and> target_table (document [deputies_table [good_row, bad_row, good_row]])
       = Some (deputies_table [good_row, bad_row, good_row])
   \<and> drop 1 (find_all (ascii ''tr'') (deputies_table [good_row, bad_row, good_row]))
       = [good_row] @ bad_row # [good_row]
   \<and> deputy_rows_loop ascii_digit ([good_row] @ bad_row # [good_row]) []
       = deputy_rows_loop ascii_digit ([good_row] @ [good_row]) []
   \<and> extract_deputies_from_file ascii_digit
        (Some (document [deputies_table [good_row, bad_row, good_row]])) = [ion_pop, ion_pop]
   \<and> \<not> qualifying_card default_base_url card_without_link
   \<and> senator_cards (document [example_card, card_without_link])
       = [example_card] @ card_without_link # []
   \<and> cards_loop default_base_url ([example_card] @ card_without_link # []) []
       = cards_loop default_base_url ([example_card] @ []) []
   \<and> extract_senators_from_file default_base_url
        (Some (document [example_card, card_without_link])) = Inr [popescu]
   \<and> find_all (ascii ''table'') (document [deputies_table [bad_row, good_row]])
       = [deputies_table [bad_row, good_row]]
   \<and> list_all (\<lambda>t. \<not> is_deputies_table t)
        (find_all (ascii ''table'') (document [deputies_table [bad_row, good_row]]))
   \<and> extract_deputies_from_file ascii_digit
        (Some (document [deputies_table [bad_row, good_row]])) = []"
proof -
  have tables: "find_all (ascii ''table'') (document [deputies_table [bad_row, good_row]])
       = [deputies_table [bad_row, good_row]]"
    by (simp add: search_defs example_defs)
  have h4: "\<forall>t\<in>set (find_all (ascii ''table'') (document [deputies_table [bad_row, good_row]])).
              \<not> is_deputies_table t"
    by (simp add: tables) (simp add: is_deputies_table_def search_defs example_defs)
  have h1: "drop 1 (find_all (ascii ''tr'') (deputies_table [good_row, bad_row, good_row]))
       = [good_row] @ bad_row # [good_row]"
    by (simp add: find_all_rows)
  have h2: "\<not> qualifying_card default_base_url card_without_link"
    by (simp add: qualifying_card_def card_without_link_skipped)
  have h3: "senator_cards (document [example_card, card_without_link])
       = [example_card] @ card_without_link # []"
    by (simp add: senator_cards_def search_defs example_defs string_defs)
  have two: "deputy_rows_loop ascii_digit ([good_row] @ [good_row]) [] = Inr [ion_pop, ion_pop]"
    by (simp add: good_row_deputy)
  have one: "cards_loop default_base_url ([example_card] @ []) [] = [popescu]"
    by (simp add: example_card_senator)
  show ?thesis
    using h1 h2 h3 h4 tables two one bad_row_skipped target_table_example
      skipped_item_only[where digit = ascii_digit and row = bad_row and before = "[good_row]"
        and after = "[good_row]" and deputies = "[]"
        and soup = "document [deputies_table [good_row, bad_row, good_row]]"
        and table = "deputies_table [good_row, bad_row, good_row]"
        and base = default_base_url and crd = card_without_link and cards_before = "[example_card]"
        and cards_after = "[]" and senators = "[]"
        and soup' = "document [example_card, card_without_link]"
        and listing = "document [deputies_table [bad_row, good_row]]"]
    by (simp add: list_all_iff)
qed

theorem malformed_first_row_counterexample:
  "deputy_of_row ascii_digit bad_row = Inr None
   \<and> extract_deputies_from_file ascii_digit (Some (document [deputies_table [good_row]]))
       = [ion_pop]
   \<and> extract_deputies_from_file ascii_digit
        (Some (document [deputies_table [bad_row, good_row]])) = []"
  by (simp add: bad_row_skipped extract_example_listing)
     (simp add: extract_deputies_from_file_def target_table_def is_deputies_table_def
      search_defs example_defs)


subsection \<open>Emitter\<close>

lemma writerows_csv:
  "writerows rows w = w\<lparr>csv := map_option (\<lambda>old. old @ rows) (csv w)\<rparr>"
proof (induction rows arbitrary: w)
  case Nil
  show ?case by (simp add: option.map_ident)
next
  case (Cons row rows)
  show ?case by (simp add: Cons.IH writerow_def option.map_comp comp_def)
qed

lemma write_deputies_append:
  "write_deputies urljoin self (xs @ ys) w
     = write_deputies urljoin self ys (write_deputies urljoin self xs w)"
  by (induction xs arbitrary: w) (auto split: option.splits)

lemma write_senators_append:
  "write_senators urljoin self (xs @ ys) w
     = write_senators urljoin self ys (write_senators urljoin self xs w)"
  by (induction xs arbitrary: w) (auto split: option.splits)

lemma parse_deputy_page:
  "parse_deputy_committees example_urljoin (base_url (cdep True))
     (disk (cached_world ion_pop_file
        (deputy_page [anchor ''/c1'' ''Comisia A'', text_node '' - Presedinte '',
                      anchor ''/c2'' ''Comisia B''])))
     ion_pop_file
   = [example_committee (cdep True) ''/c1'' ''Comisia A'' (Some (ascii ''Presedinte'')),
      example_committee (cdep True) ''/c2'' ''Comisia B'' None]"
  by (simp add: parse_deputy_committees_def is_committee_div_def search_defs example_defs
      string_defs)

lemma parse_senator_page:
  "parse_senator_committees example_urljoin (base_url (senat True))
     (disk (cached_world popescu_file
        (senator_page [element ''ul'' [element ''li'' [anchor ''/c1'' ''Comisia A'']],
                       element ''h5'' [text_node ''Alte date''],
                       anchor ''/x'' ''Declaratii''])))
     popescu_file
   = [example_committee (senat True) ''/c1'' ''Comisia A'' None]"
  by (simp add: parse_senator_committees_def elements_in_order_def is_committees_heading_def
      example_defs string_defs fix_chars_map fix_char_def)

lemma senator_placeholder_row:
  "senator_rows s [] =
     [[s_name s, s_url s, s_id s, s_birth_date s, s_constituency s, s_group s, [], []]]"
  by (simp add: senator_rows_def)

text \<open>
  C1, in the form that holds of the code. A record with no \<open>local_file\<close> (its
  detail page was neither found in the cache nor downloaded) is passed over by the
  emitter: no row is written for it, and the output is what it would be without that
  record.
\<close>

theorem no_local_file_no_row:
  "(d_local_file d = None \<longrightarrow>
      write_deputies urljoin self (before @ d # after) w
        = write_deputies urljoin self (before @ after) w)
   \<and> (s_local_file s = None \<longrightarrow>
      write_senators urljoin self' (before' @ s # after') w'
        = write_senators urljoin self' (before' @ after') w')"
  by (simp add: write_deputies_append write_senators_append)

lemma write_deputies_example:
  "csv (write_deputies example_urljoin (cdep True)
          ([ion_pop\<lparr>d_local_file := Some ion_pop_file\<rparr>] @
           [ion_pop\<lparr>d_local_file := Some ion_pop_file\<rparr>])
          ((cached_world ion_pop_file
             (deputy_page [anchor ''/c1'' ''Comisia A'', text_node '' - Presedinte '',
                           anchor ''/c2'' ''Comisia B'']))\<lparr>csv := Some [deputy_header]\<rparr>))
   = Some [deputy_header,
           [ascii ''Ion Pop'', deputy_url (ascii ''123''), ascii ''123'', ascii ''PSD'',
            ascii ''Comisia A'', ascii ''http://www.cdep.ro/c1'', ascii ''Presedinte''],
           [ascii ''Ion Pop'', deputy_url (ascii ''123''), ascii ''123'', ascii ''PSD'',
            ascii ''Comisia B'', ascii ''http://www.cdep.ro/c2'', []],
           [ascii ''Ion Pop'', deputy_url (ascii ''123''), ascii ''123'', ascii ''PSD'',
            ascii ''Comisia A'', ascii ''http://www.cdep.ro/c1'', ascii ''Presedinte''],
           [ascii ''Ion Pop'', deputy_url (ascii ''123''), ascii ''123'', ascii ''PSD'',
            ascii ''Comisia B'', ascii ''http://www.cdep.ro/c2'', []]]"
proof -
  have "disk ((cached_world ion_pop_file
             (deputy_page [anchor ''/c1'' ''Comisia A'', text_node '' - Presedinte '',
                           anchor ''/c2'' ''Comisia B'']))\<lparr>csv := Some [deputy_header]\<rparr>)
        = disk (cached_world ion_pop_file
             (deputy_page [anchor ''/c1'' ''Comisia A'', text_node '' - Presedinte '',
                           anchor ''/c2'' ''Comisia B'']))"
    by simp
  then show ?thesis
    by (simp add: writerows_csv parse_deputy_page deputy_rows_def)
       (simp add: ion_pop_def example_committee_def cdep_def ascii_def)
qed

lemma write_senators_example:
  "csv (write_senators example_urljoin (senat True)
          ([popescu\<lparr>s_local_file := Some popescu_file\<rparr>] @ [])
          ((cached_world popescu_file
             (senator_page [element ''ul'' [element ''li'' [anchor ''/c1'' ''Comisia A'']],
                            element ''h5'' [text_node ''Alte date''],
                            anchor ''/x'' ''Declaratii'']))\<lparr>csv := Some [senator_header]\<rparr>))
   = Some [senator_header,
           [ascii ''Popescu Ion'', senator_url default_base_url (ascii ''ab-12''),
            ascii ''ab-12'', ascii ''01.02.1970'', label_constituency @ ascii '' nr.13 CLUJ'',
            ascii ''Grupul parlamentar PSD'', ascii ''Comisia A'',
            ascii ''https://www.senat.ro/c1'']]"
proof -
  have "disk ((cached_world popescu_file
             (senator_page [element ''ul'' [element ''li'' [anchor ''/c1'' ''Comisia A'']],
                            element ''h5'' [text_node ''Alte date''],
                            anchor ''/x'' ''Declaratii'']))\<lparr>csv := Some [senator_header]\<rparr>)
        = disk (cached_world popescu_file
             (senator_page [element ''ul'' [element ''li'' [anchor ''/c1'' ''Comisia A'']],
                            element ''h5'' [text_node ''Alte date''],
                            anchor ''/x'' ''Declaratii'']))"
    by simp
  then show ?thesis
    by (simp add: writerows_csv parse_senator_page senator_rows_def)
       (simp add: popescu_def example_committee_def senat_def default_base_url_def ascii_def)
qed

theorem no_local_file_no_row_witness:
  "d_local_file ana_dinu = None
   \<and> write_deputies example_urljoin (cdep True)
        ([ion_pop\<lparr>d_local_file := Some ion_pop_file\<rparr>] @
         ana_dinu # [ion_pop\<lparr>d_local_file := Some ion_pop_file\<rparr>])
        ((cached_world ion_pop_file
           (deputy_page [anchor ''/c1'' ''Comisia A'', text_node '' - Presedinte '',
                         anchor ''/c2'' ''Comisia B'']))\<lparr>csv := Some [deputy_header]\<rparr>)
       = write_deputies example_urljoin (cdep True)
           ([ion_pop\<lparr>d_local_file := Some ion_pop_file\<rparr>] @
            [ion_pop\<lparr>d_local_file := Some ion_pop_file\<rparr>])
           ((cached_world ion_pop_file
              (deputy_page [anchor ''/c1'' ''Comisia A'', text_node '' - Presedinte '',
                            anchor ''/c2'' ''Comisia B'']))\<lparr>csv := Some [deputy_header]\<rparr>)
   \<and> csv (write_deputies example_urljoin (cdep True)
        ([ion_pop\<lparr>d_local_file := Some ion_pop_file\<rparr>] @
         ana_dinu # [ion_pop\<lparr>d_local_file := Some ion_pop_file\<rparr>])
        ((cached_world ion_pop_file
           (deputy_page [anchor ''/c1'' ''Comisia A'', text_node '' - Presedinte '',
                         anchor ''/c2'' ''Comisia B'']))\<lparr>csv := Some [deputy_header]\<rparr>))
       = Some [deputy_header,
           [ascii ''Ion Pop'', deputy_url (ascii ''123''), ascii ''123'', ascii ''PSD'',
            ascii ''Comisia A'', ascii ''http://www.cdep.ro/c1'', ascii ''Presedinte''],
           [ascii ''Ion Pop'', deputy_url (ascii ''123''), ascii ''123'', ascii ''PSD'',
            ascii ''Comisia B'', ascii ''http://www.cdep.ro/c2'', []],
           [ascii ''Ion Pop'', deputy_url (ascii ''123''), ascii ''123'', ascii ''PSD'',
            ascii ''Comisia A'', ascii ''http://www.cdep.ro/c1'', ascii ''Presedinte''],
           [ascii ''Ion Pop'', deputy_url (ascii ''123''), ascii ''123'', ascii ''PSD'',
            ascii ''Comisia B'', ascii ''http://www.cdep.ro/c2'', []]]
   \<and> s_local_file ionescu = None
   \<and> write_senators example_urljoin (senat True)
        ([popescu\<lparr>s_local_file := Some popescu_file\<rparr>] @ ionescu # [])
        ((cached_world popescu_file
           (senator_page [element ''ul'' [element ''li'' [anchor ''/c1'' ''Comisia A'']],
                          element ''h5'' [text_node ''Alte date''],
                          anchor ''/x'' ''Declaratii'']))\<lparr>csv := Some [senator_header]\<rparr>)
       = write_senators example_urljoin (senat True)
           ([popescu\<lparr>s_local_file := Some popescu_file\<rparr>] @ [])
           ((cached_world popescu_file
              (senator_page [element ''ul'' [element ''li'' [anchor ''/c1'' ''Comisia A'']],
                             element ''h5'' [text_node ''Alte date''],
                             anchor ''/x'' ''Declaratii'']))\<lparr>csv := Some [senator_header]\<rparr>)
   \<and> csv (write_senators example_urljoin (senat True)
        ([popescu\<lparr>s_local_file := Some popescu_file\<rparr>] @ ionescu # [])
        ((cached_world popescu_file
           (senator_page [element ''ul'' [element ''li'' [anchor ''/c1'' ''Comisia A'']],
                          element ''h5'' [text_node ''Alte date''],
                          anchor ''/x'' ''Declaratii'']))\<lparr>csv := Some [senator_header]\<rparr>))
       = Some [senator_header,
           [ascii ''Popescu Ion'', senator_url default_base_url (ascii ''ab-12''),
            ascii ''ab-12'', ascii ''01.02.1970'', label_constituency @ ascii '' nr.13 CLUJ'',
            ascii ''Grupul parlamentar PSD'', ascii ''Comisia A'',
            ascii ''https://www.senat.ro/c1'']]"
proof -
  let ?dw = "(cached_world ion_pop_file
           (deputy_page [anchor ''/c1'' ''Comisia A'', text_node '' - Presedinte '',
                         anchor ''/c2'' ''Comisia B'']))\<lparr>csv := Some [deputy_header]\<rparr>"
  let ?sw = "(cached_world popescu_file
           (senator_page [element ''ul'' [element ''li'' [anchor ''/c1'' ''Comisia A'']],
                          element ''h5'' [text_node ''Alte date''],
                          anchor ''/x'' ''Declaratii'']))\<lparr>csv := Some [senator_header]\<rparr>"
  have h: "d_local_file ana_dinu = None" "s_local_file ionescu = None"
    by (simp_all add: ana_dinu_def ionescu_def)
  have skip_d:
    "write_deputies example_urljoin (cdep True)
        ([ion_pop\<lparr>d_local_file := Some ion_pop_file\<rparr>] @
         ana_dinu # [ion_pop\<lparr>d_local_file := Some ion_pop_file\<rparr>]) ?dw
       = write_deputies example_urljoin (cdep True)
           ([ion_pop\<lparr>d_local_file := Some ion_pop_file\<rparr>] @
            [ion_pop\<lparr>d_local_file := Some ion_pop_file\<rparr>]) ?dw"
    using h
      no_local_file_no_row[where d = ana_dinu and urljoin = example_urljoin
        and self = "cdep True" and before = "[ion_pop\<lparr>d_local_file := Some ion_pop_file\<rparr>]"
        and after = "[ion_pop\<lparr>d_local_file := Some ion_pop_file\<rparr>]" and w = ?dw]
    by blast
  have skip_s:
    "write_senators example_urljoin (senat True)
        ([popescu\<lparr>s_local_file := Some popescu_file\<rparr>] @ ionescu # []) ?sw
       = write_senators example_urljoin (senat True)
           ([popescu\<lparr>s_local_file := Some popescu_file\<rparr>] @ []) ?sw"
    using h
      no_local_file_no_row[where urljoin = example_urljoin and s = ionescu
        and self' = "senat True"
        and before' = "[popescu\<lparr>s_local_file := Some popescu_file\<rparr>]" and after' = "[]"
        and w' = ?sw]
    by blast
  have csv_d: "csv (write_deputies example_urljoin (cdep True)
        ([ion_pop\<lparr>d_local_file := Some ion_pop_file\<rparr>] @
         ana_dinu # [ion_pop\<lparr>d_local_file := Some ion_pop_file\<rparr>]) ?dw)
       = csv (write_deputies example_urljoin (cdep True)
           ([ion_pop\<lparr>d_local_file := Some ion_pop_file\<rparr>] @
            [ion_pop\<lparr>d_local_file := Some ion_pop_file\<rparr>]) ?dw)"
    by (simp only: skip_d)
  have csv_s: "csv (write_senators example_urljoin (senat True)
        ([popescu\<lparr>s_local_file := Some popescu_file\<rparr>] @ ionescu # []) ?sw)
       = csv (write_senators example_urljoin (senat True)
           ([popescu\<lparr>s_local_file := Some popescu_file\<rparr>] @ []) ?sw)"
    by (simp only: skip_s)
  show ?thesis
    using h skip_d skip_s csv_d[unfolded write_deputies_example]
      csv_s[unfolded write_senators_example]
    by blast
qed

theorem failed_fetch_no_row_counterexample:
  "extract_deputies_from_file ascii_digit (Some (document [deputies_table [good_row]]))
     = [ion_pop]
   \<and> csv (process_all_deputies ascii_digit example_urljoin (cdep False)
            (Some (document [deputies_table [good_row]])) fresh_world) = Some [deputy_header]"
  by (simp add: extract_example_listing process_all_deputies_def)
     (simp add: ion_pop_def fresh_world_def cdep_def)

text \<open>
  C2, at the input where the lower-chamber code departs from it. One deputy with group
  \<open>PSD\<close>, whose cached detail page holds no committee section: the row written has six
  cells under a header of seven, and the group is not among them.
\<close>

theorem deputy_placeholder_row_drops_group:
  "extract_deputies_from_file ascii_digit (Some (document [deputies_table [good_row]]))
     = [ion_pop]
   \<and> d_group ion_pop = ascii ''PSD''
   \<and> csv (process_all_deputies ascii_digit example_urljoin (cdep True)
            (Some (document [deputies_table [good_row]]))
            (cached_world ion_pop_file (document [])))
       = Some [deputy_header,
               [ascii ''Ion Pop'', deputy_url (ascii ''123''), ascii ''123'', [], [], []]]
   \<and> length deputy_header = 7"
proof -
  have "csv (process_all_deputies ascii_digit example_urljoin (cdep True)
            (Some (document [deputies_table [good_row]]))
            (cached_world ion_pop_file (document [])))
       = Some [deputy_header,
               [ascii ''Ion Pop'', deputy_url (ascii ''123''), ascii ''123'', [], [], []]]"
    by (simp add: extract_example_listing process_all_deputies_def)
       (simp add: ion_pop_def fresh_world_def cached_world_def cdep_def deputy_filepath_def
        ion_pop_file_def ascii_def writerows_csv parse_deputy_committees_def document_def
        search_defs deputy_rows_def)
  then show ?thesis
    by (simp add: extract_example_listing) (simp add: ion_pop_def deputy_header_def)
qed





subsection \<open>Upper-chamber card fields\<close>

lemma dropWhile_rev_stable:
  "t = [] \<or> \<not> P (hd t) \<Longrightarrow>
   dropWhile P (rev (dropWhile P (rev t))) = rev (dropWhile P (rev t))"
proof (induction t rule: rev_induct)
  case Nil
  then show ?case by simp
next
  case (snoc x xs)
  then show ?case by (cases xs) auto
qed

lemma strip_with_idem: "strip_with P (strip_with P s) = strip_with P s"
proof -
  have "dropWhile P s = [] \<or> \<not> P (hd (dropWhile P s))"
    using hd_dropWhile[of P s] by blast
  then have "dropWhile P (rev (dropWhile P (rev (dropWhile P s))))
               = rev (dropWhile P (rev (dropWhile P s)))"
    by (rule dropWhile_rev_stable[of "dropWhile P s" P])
  then show ?thesis by (simp add: strip_with_def)
qed

lemma find_snoc:
  "List.find P (xs @ [x]) =
     (case List.find P xs of Some y \<Rightarrow> Some y | None \<Rightarrow> if P x then Some x else None)"
  by (induction xs) auto

lemma scan_lines_last:
  "scan_lines ls (b, c, g) =
     ((case last_line (contains label_birth) ls of
         None \<Rightarrow> b
       | Some l \<Rightarrow> strip (py_replace label_birth [] l)),
      (case last_line constituency_line ls of None \<Rightarrow> c | Some l \<Rightarrow> strip l),
      (case last_line group_line ls of None \<Rightarrow> g | Some l \<Rightarrow> strip l))"
  by (induction ls arbitrary: b c g)
     (auto simp: last_line_def find_snoc constituency_line_def group_line_def
       split: option.splits)

lemma text_lines_stripped: "l \<in> set (text_lines crd) \<Longrightarrow> strip l = l \<and> l \<noteq> []"
  by (auto simp: text_lines_def strip_def strip_with_idem)

lemma last_line_in: "last_line P ls = Some l \<Longrightarrow> l \<in> set ls \<and> P l"
  using find_Some_in[of P "rev ls" l] by (simp add: last_line_def)

lemma contains_map: "contains sub l \<Longrightarrow> contains (map f sub) (map f l)"
proof (induction l)
  case Nil
  then show ?case by simp
next
  case (Cons a l)
  then show ?case using map_mono_prefix[of sub "a # l" f] by auto
qed

lemma fix_label_constituency: "map fix_char label_constituency = label_constituency"
  by (simp add: label_constituency_def ascii_def fix_char_def)

lemma fix_label_group: "map fix_char label_group = label_group"
  by (simp add: label_group_def ascii_def fix_char_def)

text \<open>
  C3, in the form that holds of the code. For every upper-chamber card that yields a
  record, the fields come from the card's flattened text, split into trimmed non-empty
  lines and searched for three fixed labels anywhere in a line; for each field the last
  line that reaches its branch decides. \<open>birth_date\<close> is that line with the
  label removed, trimmed. \<open>constituency\<close> and \<open>group\<close> are the
  whole line, normalised, so a field that is not empty still holds its label. A label that
  no line holds leaves its field empty.
\<close>

theorem card_fields:
  "senator_of_card base crd = Inr (Some s) \<longrightarrow>
     s_birth_date s =
       (case last_line (contains label_birth) (text_lines crd) of
          None \<Rightarrow> []
        | Some l \<Rightarrow> strip (py_replace label_birth [] l))
     \<and> s_constituency s =
       (case last_line constituency_line (text_lines crd) of
          None \<Rightarrow> []
        | Some l \<Rightarrow> fix_chars l)
     \<and> s_group s =
       (case last_line group_line (text_lines crd) of None \<Rightarrow> [] | Some l \<Rightarrow> fix_chars l)
     \<and> (s_constituency s \<noteq> [] \<longrightarrow> contains label_constituency (s_constituency s))
     \<and> (s_group s \<noteq> [] \<longrightarrow> contains label_group (s_group s))"
proof
  assume a: "senator_of_card base crd = Inr (Some s)"
  let ?ls = "text_lines crd"
  obtain b c g where scan: "scan_lines ?ls ([], [], []) = (b, c, g)"
    by (cases "scan_lines ?ls ([], [], [])") auto
  from a scan have s:
    "s_birth_date s = b" "s_constituency s = fix_chars c" "s_group s = fix_chars g"
    by (auto simp: senator_of_card_def split: option.splits)
  have b: "b = (case last_line (contains label_birth) ?ls of
                  None \<Rightarrow> []
                | Some l \<Rightarrow> strip (py_replace label_birth [] l))"
    using scan by (simp add: scan_lines_last)
  have c: "c = (case last_line constituency_line ?ls of None \<Rightarrow> [] | Some l \<Rightarrow> l)"
    using scan text_lines_stripped[of _ crd]
    by (auto simp: scan_lines_last split: option.splits dest!: last_line_in)
  have g: "g = (case last_line group_line ?ls of None \<Rightarrow> [] | Some l \<Rightarrow> l)"
    using scan text_lines_stripped[of _ crd]
    by (auto simp: scan_lines_last split: option.splits dest!: last_line_in)
  have c2: "c \<noteq> [] \<longrightarrow> contains label_constituency (fix_chars c)"
    using c contains_map[of label_constituency c fix_char]
    by (auto simp: fix_chars_map fix_label_constituency constituency_line_def
        split: option.splits dest!: last_line_in)
  have g2: "g \<noteq> [] \<longrightarrow> contains label_group (fix_chars g)"
    using g contains_map[of label_group g fix_char]
    by (auto simp: fix_chars_map fix_label_group group_line_def
        split: option.splits dest!: last_line_in)
  show "s_birth_date s =
       (case last_line (contains label_birth) (text_lines crd) of
          None \<Rightarrow> []
        | Some l \<Rightarrow> strip (py_replace label_birth [] l))
     \<and> s_constituency s =
       (case last_line constituency_line (text_lines crd) of
          None \<Rightarrow> []
        | Some l \<Rightarrow> fix_chars l)
     \<and> s_group s =
       (case last_line group_line (text_lines crd) of None \<Rightarrow> [] | Some l \<Rightarrow> fix_chars l)
     \<and> (s_constituency s \<noteq> [] \<longrightarrow> contains label_constituency (s_constituency s))
     \<and> (s_group s \<noteq> [] \<longrightarrow> contains label_group (s_group s))"
    using s b c g c2 g2 by (auto simp: fix_chars_Nil split: option.splits)
qed

lemma example_card_lines:
  "text_lines example_card
     = [ascii ''Popescu Ion'', ascii ''Data nasterii: 01.02.1970'',
        label_constituency @ ascii '' nr.13 CLUJ'', ascii ''Grupul parlamentar PSD'']"
  by (simp add: text_lines_def example_defs string_defs label_constituency_def)

theorem card_fields_witness:
  "senator_of_card default_base_url example_card = Inr (Some popescu)
   \<and> last_line (contains label_birth) (text_lines example_card)
       = Some (ascii ''Data nasterii: 01.02.1970'')
   \<and> s_birth_date popescu = ascii ''01.02.1970''
   \<and> last_line constituency_line (text_lines example_card)
       = Some (label_constituency @ ascii '' nr.13 CLUJ'')
   \<and> s_constituency popescu = label_constituency @ ascii '' nr.13 CLUJ''
   \<and> s_constituency popescu \<noteq> []
   \<and> contains label_constituency (s_constituency popescu)
   \<and> last_line group_line (text_lines example_card) = Some (ascii ''Grupul parlamentar PSD'')
   \<and> s_group popescu = ascii ''Grupul parlamentar PSD''
   \<and> s_group popescu \<noteq> []
   \<and> contains label_group (s_group popescu)"
proof -
  have l1: "last_line (contains label_birth) (text_lines example_card)
       = Some (ascii ''Data nasterii: 01.02.1970'')"
    by (simp add: example_card_lines last_line_def label_birth_def label_constituency_def
        ascii_def)
  have l2: "last_line constituency_line (text_lines example_card)
       = Some (label_constituency @ ascii '' nr.13 CLUJ'')"
    by (simp add: example_card_lines last_line_def constituency_line_def label_birth_def
        label_constituency_def ascii_def)
  have l3: "last_line group_line (text_lines example_card)
       = Some (ascii ''Grupul parlamentar PSD'')"
    by (simp add: example_card_lines last_line_def group_line_def label_birth_def
        label_constituency_def label_group_def ascii_def)
  have v: "s_group popescu = ascii ''Grupul parlamentar PSD''" "s_group popescu \<noteq> []"
    "s_birth_date popescu = ascii ''01.02.1970''"
    "s_constituency popescu = label_constituency @ ascii '' nr.13 CLUJ''"
    "s_constituency popescu \<noteq> []"
    by (simp_all add: popescu_def ascii_def label_constituency_def)
  have "(s_group popescu \<noteq> [] \<longrightarrow> contains label_group (s_group popescu))
        \<and> (s_constituency popescu \<noteq> [] \<longrightarrow>
            contains label_constituency (s_constituency popescu))"
    using example_card_senator
      card_fields[where base = default_base_url and crd = example_card and s = popescu]
    by blast
  then show ?thesis
    using l1 l2 l3 v example_card_senator by blast
qed

theorem group_keeps_label_counterexample:
  "senator_of_card default_base_url example_card = Inr (Some popescu)
   \<and> text_lines example_card
       = [ascii ''Popescu Ion'', ascii ''Data nasterii: 01.02.1970'',
          label_constituency @ ascii '' nr.13 CLUJ'', ascii ''Grupul parlamentar PSD'']
   \<and> s_group popescu = ascii ''Grupul parlamentar PSD''
   \<and> s_group popescu \<noteq> ascii ''PSD''
   \<and> prefix label_group (s_group popescu)"
  by (simp add: example_card_senator example_card_lines)
     (simp add: popescu_def label_group_def ascii_def)


subsection \<open>Detail parser, lower chamber\<close>

lemma contents_loop_append:
  "contents_loop urljoin base (xs @ ys) acc =
     (case contents_loop urljoin base xs acc of
        Inl e \<Rightarrow> Inl e
      | Inr acc' \<Rightarrow> contents_loop urljoin base ys acc')"
  by (induction urljoin base xs acc rule: contents_loop.induct)
     (auto split: option.splits sum.splits)

text \<open>
  The walk over the children of the committee paragraph, one child at a time. An anchor
  child whose \<open>href\<close> is there and is accepted by \<open>urljoin\<close> starts a new association with
  no role. Any other element child changes nothing. A text child whose text, trimmed of
  blanks, dashes, line ends and tabs, is not empty becomes the role of the most recently
  started association when there is one. Text before any anchor is discarded. Two such
  anchors followed by one role text give two associations, the first with no role, the
  second with the text.
\<close>

lemma paragraph_walk_steps:
  "(contents_loop urljoin base elements [] = Inr committees
      \<and> map_of attrs (ascii ''href'') = Some href \<and> urljoin base href = Inr url \<longrightarrow>
    contents_loop urljoin base (elements @ [Tag (ascii ''a'') attrs kids]) []
      = Inr (committees @ [\<lparr>c_name = strip (get_text (Tag (ascii ''a'') attrs kids)),
                             c_url = url, c_role = None\<rparr>]))
   \<and> (contents_loop urljoin base elements [] = Inr committees \<and> n \<noteq> ascii ''a'' \<longrightarrow>
    contents_loop urljoin base (elements @ [Tag n attrs kids]) [] = Inr committees)
   \<and> (contents_loop urljoin base elements [] = Inr committees \<longrightarrow>
    contents_loop urljoin base (elements @ [NavigableString s]) []
      = Inr (if role_text s \<noteq> [] \<and> committees \<noteq> []
             then butlast committees @ [(last committees)\<lparr>c_role := Some (role_text s)\<rparr>]
             else committees))
   \<and> contents_loop urljoin base (NavigableString s # elements) []
       = contents_loop urljoin base elements []
   \<and> (map_of attrs (ascii ''href'') = Some href \<and> urljoin base href = Inr url
      \<and> map_of attrs' (ascii ''href'') = Some href' \<and> urljoin base href' = Inr url'
      \<and> role_text s \<noteq> [] \<longrightarrow>
    contents_loop urljoin base
      [Tag (ascii ''a'') attrs kids, Tag (ascii ''a'') attrs' kids', NavigableString s] []
      = Inr [\<lparr>c_name = strip (get_text (Tag (ascii ''a'') attrs kids)),
               c_url = url, c_role = None\<rparr>,
              \<lparr>c_name = strip (get_text (Tag (ascii ''a'') attrs' kids')),
               c_url = url', c_role = Some (role_text s)\<rparr>])"
  by (simp add: contents_loop_append)

text \<open>
  An anchor child with no \<open>href\<close>, or with one that \<open>urljoin\<close> refuses, ends the walk with
  an exception, whatever came before it and whatever follows.
\<close>

lemma paragraph_walk_raises:
  "(contents_loop urljoin base elements [] = Inr committees
      \<and> map_of attrs (ascii ''href'') = None \<longrightarrow>
    contents_loop urljoin base (elements @ Tag (ascii ''a'') attrs kids # rest) []
      = Inl KeyError)
   \<and> (contents_loop urljoin base elements [] = Inr committees
      \<and> map_of attrs (ascii ''href'') = Some href \<and> urljoin base href = Inl e \<longrightarrow>
    contents_loop urljoin base (elements @ Tag (ascii ''a'') attrs kids # rest) [] = Inl e)"
  by (simp add: contents_loop_append)

text \<open>
  C7, at the input where the code departs from it. The committee paragraph holds an
  anchor with an \<open>href\<close> and, after it, an anchor without one. The second anchor does not
  start an association: the lookup of its \<open>href\<close> raises, the parser answers the exception
  with the empty list, and the association of the first anchor is lost with it. The
  same paragraph without the second anchor gives the association of the first, and the
  paragraph of the scenario (two anchors with \<open>href\<close>, then a role text) gives two
  associations, the first with no role and the second with the role.
\<close>

theorem anchor_without_href_loses_associations:
  "contents_loop example_urljoin (base_url (cdep True))
     [anchor ''/c1'' ''Comisia A'', anchor_without_href ''Sus''] [] = Inl KeyError
   \<and> parse_deputy_committees example_urljoin (base_url (cdep True))
        (disk (cached_world ion_pop_file
           (deputy_page [anchor ''/c1'' ''Comisia A'', anchor_without_href ''Sus''])))
        ion_pop_file = []
   \<and> parse_deputy_committees example_urljoin (base_url (cdep True))
        (disk (cached_world ion_pop_file (deputy_page [anchor ''/c1'' ''Comisia A''])))
        ion_pop_file = [example_committee (cdep True) ''/c1'' ''Comisia A'' None]
   \<and> parse_deputy_committees example_urljoin (base_url (cdep True))
        (disk (cached_world ion_pop_file
           (deputy_page [anchor ''/c1'' ''Comisia A'', anchor ''/c2'' ''Comisia B'',
                         text_node '' - Secretar ''])))
        ion_pop_file
       = [example_committee (cdep True) ''/c1'' ''Comisia A'' None,
          example_committee (cdep True) ''/c2'' ''Comisia B'' (Some (ascii ''Secretar''))]"
  by (simp add: parse_deputy_committees_def is_committee_div_def search_defs example_defs
      string_defs)

subsection \<open>Detail parser, upper chamber\<close>

lemma find_next_loop_to_end:
  assumes "\<forall>k\<in>set following. node_name k \<noteq> Some (ascii ''h5'')"
    and "\<forall>k\<in>set following. node_name k = Some (ascii ''a'') \<longrightarrow> resolves urljoin base k"
  shows "find_next_loop urljoin base following acc =
           Inr (acc @ map (senate_association urljoin base)
                        (filter (\<lambda>k. node_name k = Some (ascii ''a'')) following))"
  using assms
  by (induction following arbitrary: acc)
     (auto simp: senate_association_def resolves_def split: option.splits sum.splits)

lemma find_next_loop_raises:
  assumes "\<forall>k\<in>set following. node_name k \<noteq> Some (ascii ''h5'')"
    and "\<exists>k\<in>set following. node_name k = Some (ascii ''a'') \<and> \<not> resolves urljoin base k"
  shows "\<exists>e. find_next_loop urljoin base following acc = Inl e"
  using assms
proof (induction following arbitrary: acc)
  case Nil
  then show ?case by simp
next
  case (Cons k ks)
  show ?case
  proof (cases "node_name k = Some (ascii ''a'') \<and> \<not> resolves urljoin base k")
    case True
    then show ?thesis
      using Cons.prems(1) by (auto simp: resolves_def split: option.splits sum.splits)
  next
    case False
    with Cons.prems(2) have later:
      "\<exists>k\<in>set ks. node_name k = Some (ascii ''a'') \<and> \<not> resolves urljoin base k"
      by auto
    have no_h5: "\<forall>k\<in>set ks. node_name k \<noteq> Some (ascii ''h5'')"
      using Cons.prems(1) by simp
    have ih: "\<exists>e. find_next_loop urljoin base ks acc' = Inl e" for acc'
      using Cons.IH[OF no_h5 later] .
    show ?thesis
    proof (cases "node_name k = Some (ascii ''a'')")
      case True
      with False obtain href url where
        "get_attr k (ascii ''href'') = Some href" "urljoin base href = Inr url"
        by (auto simp: resolves_def split: option.splits sum.splits)
      with True Cons.prems(1) ih show ?thesis by simp
    next
      case False
      with Cons.prems(1) ih show ?thesis by simp
    qed
  qed
qed

lemma heading_position:
  assumes "\<forall>k\<in>set before. \<not> is_committees_heading k" and "is_committees_heading h5"
  shows "dropWhile (\<lambda>k. \<not> is_committees_heading k) (before @ h5 # following) = h5 # following"
  using assms by (induction before) auto

text \<open>
  When the committees heading is found and no \<open>h5\<close> element follows it in the document,
  the forward scan runs to the end of the document. If every anchor after the heading
  has an \<open>href\<close> that \<open>urljoin\<close> accepts, every one of them, in document order and wherever
  it stands, becomes a Committee Association; if one of them has not, the parser returns
  the empty list.
\<close>

lemma scan_to_end_of_document:
  "fs filepath = Some soup
   \<and> elements_in_order soup = before @ h5 # following
   \<and> (\<forall>k\<in>set before. \<not> is_committees_heading k) \<and> is_committees_heading h5
   \<and> (\<forall>k\<in>set following. node_name k \<noteq> Some (ascii ''h5'')) \<longrightarrow>
   parse_senator_committees urljoin base fs filepath =
     (if \<forall>k\<in>set following. node_name k = Some (ascii ''a'') \<longrightarrow> resolves urljoin base k
      then map (senate_association urljoin base)
             (filter (\<lambda>k. node_name k = Some (ascii ''a'')) following)
      else [])"
proof
  assume a: "fs filepath = Some soup
   \<and> elements_in_order soup = before @ h5 # following
   \<and> (\<forall>k\<in>set before. \<not> is_committees_heading k) \<and> is_committees_heading h5
   \<and> (\<forall>k\<in>set following. node_name k \<noteq> Some (ascii ''h5''))"
  then have pos: "dropWhile (\<lambda>k. \<not> is_committees_heading k) (elements_in_order soup)
                    = h5 # following"
    using heading_position[of before h5 following] by simp
  let ?all_resolve = "\<forall>k\<in>set following. node_name k = Some (ascii ''a'') \<longrightarrow>
           resolves urljoin base k"
  let ?associations = "map (senate_association urljoin base)
             (filter (\<lambda>k. node_name k = Some (ascii ''a'')) following)"
  show "parse_senator_committees urljoin base fs filepath =
          (if ?all_resolve then ?associations else [])"
  proof (cases ?all_resolve)
    case True
    with a have "find_next_loop urljoin base following [] = Inr ([] @ ?associations)"
      using find_next_loop_to_end[of following urljoin base "[]"] by blast
    with a pos have "parse_senator_committees urljoin base fs filepath = ?associations"
      by (simp add: parse_senator_committees_def)
    also have "?associations = (if ?all_resolve then ?associations else [])"
      using True by (rule if_P[symmetric])
    finally show ?thesis .
  next
    case False
    then have "\<exists>k\<in>set following. node_name k = Some (ascii ''a'') \<and>
           \<not> resolves urljoin base k"
      by simp
    with a obtain e where "find_next_loop urljoin base following [] = Inl e"
      using find_next_loop_raises[of following urljoin base "[]"] by blast
    with a pos have "parse_senator_committees urljoin base fs filepath = []"
      by (simp add: parse_senator_committees_def)
    also have "[] = (if ?all_resolve then ?associations else [])"
      using False by (rule if_not_P[symmetric])
    finally show ?thesis .
  qed
qed

text \<open>
  C10, at the input where the code departs from it. The committees heading is found, no
  \<open>h5\<close> follows it, and the scan runs to the end of the document. With a committee anchor
  after the heading and an anchor in a later, unrelated section, both become Committee
  Associations. When the later anchor has no \<open>href\<close>, the lookup raises, the parser
  answers the exception with the empty list, and the committee anchor before it is lost
  too: no anchor after the heading becomes a Committee Association.
\<close>

theorem later_anchor_without_href_loses_associations:
  "parse_senator_committees example_urljoin (base_url (senat True))
     (disk (cached_world popescu_file
        (senator_page [element ''ul'' [element ''li'' [anchor ''/c1'' ''Comisia A'']],
                       element ''div'' [text_node ''Contact''],
                       anchor ''/contact'' ''Scrie-ne''])))
     popescu_file
     = [example_committee (senat True) ''/c1'' ''Comisia A'' None,
        example_committee (senat True) ''/contact'' ''Scrie-ne'' None]
   \<and> parse_senator_committees example_urljoin (base_url (senat True))
        (disk (cached_world popescu_file
           (senator_page [element ''ul'' [element ''li'' [anchor ''/c1'' ''Comisia A'']],
                          element ''div'' [text_node ''Contact''],
                          anchor_without_href ''Sus''])))
        popescu_file = []"
  by (simp add: parse_senator_committees_def elements_in_order_def is_committees_heading_def
      example_defs string_defs fix_chars_map fix_char_def)

end
